theory Spec2Isabelle
  imports Complex_Main "HOL-Library.Word" "HOL-Library.Log_Nat"
begin

section \<open>The host: platform, file system, clock, alerts\<close>

text \<open>
  The application runs on a host (React Native with the Expo SDK) that the repository
  only calls. The part of the host the utilities and screens touch is a record: the
  platform flag \<open>Platform.OS\<close>, the cache directory, the files and directories of the
  file system, the clock read by \<open>Date.now()\<close>, the document the user picks next, the playback
  status (\<open>isLoaded\<close>, \<open>durationMillis\<close>) the audio engine reports for a sound, and
  a chronological trace of what the program did to the outside (timers, file
  operations, alerts, console output, audio calls). Every host call can be refused by
  the host (permission, disk, codec): \<open>refuses\<close> says which. \<open>Native\<close> stands for
  every platform other than web, the only one the code tells apart. A rejected promise
  carries \<open>Thrown\<close> with the name of the call that failed.
\<close>

datatype platform = Web | Native

type_synonym bytes = "8 word list"

datatype exn = Thrown string

datatype host_op =
    OpInfo string
  | OpDelete string
  | OpCopy string string
  | OpMkdir string
  | OpCreate string
  | OpUnload nat
  | OpStop nat
  | OpSeek nat
  | OpStatus nat

datatype event =
    Slept nat
  | Copied string string
  | Deleted string
  | MadeDir string
  | Alerted string string
  | Logged string
  | Created nat string
  | Unloaded nat
  | Stopped nat
  | Seeked nat

record asset =
  asset_uri :: string
  asset_name :: string
  asset_size :: "nat option"

record DocumentPickerResult =
  canceled :: bool
  assets :: "asset list"

record world =
  os :: platform
  cacheDirectory :: string
  files :: "string \<rightharpoonup> bytes"
  dirs :: "string set"
  now :: nat
  refuses :: "host_op \<Rightarrow> bool"
  picker :: "exn + DocumentPickerResult"
  status_of :: "nat \<Rightarrow> bool \<times> nat option"
  next_sound :: nat
  trace :: "event list"

section \<open>Promises: state, result or rejection\<close>

text \<open>
  An \<open>async\<close> function is a state transformer that either resolves (\<open>Inr\<close>) or
  rejects (\<open>Inl\<close>); \<open>await\<close> is \<open>bindE\<close>, \<open>try/catch\<close> is \<open>try_catch\<close> and
  \<open>try/finally\<close> is \<open>try_finally\<close>.
\<close>

type_synonym ('s, 'a) eio = "'s \<Rightarrow> (exn + 'a) \<times> 's"

definition returnE :: "'a \<Rightarrow> ('s, 'a) eio" where
  "returnE x s = (Inr x, s)"

definition throwE :: "exn \<Rightarrow> ('s, 'a) eio" where
  "throwE e s = (Inl e, s)"

definition bindE :: "('s, 'a) eio \<Rightarrow> ('a \<Rightarrow> ('s, 'b) eio) \<Rightarrow> ('s, 'b) eio" where
  "bindE m f s = (case m s of (Inl e, s') \<Rightarrow> (Inl e, s') | (Inr x, s') \<Rightarrow> f x s')"

definition try_catch :: "('s, 'a) eio \<Rightarrow> (exn \<Rightarrow> ('s, 'a) eio) \<Rightarrow> ('s, 'a) eio" where
  "try_catch m h s = (case m s of (Inl e, s') \<Rightarrow> h e s' | (Inr x, s') \<Rightarrow> (Inr x, s'))"

definition try_finally :: "('s, 'a) eio \<Rightarrow> ('s, unit) eio \<Rightarrow> ('s, 'a) eio" where
  "try_finally m fin s =
     (case m s of (r, s') \<Rightarrow>
        (case fin s' of (Inl e, s'') \<Rightarrow> (Inl e, s'') | (Inr _, s'') \<Rightarrow> (r, s'')))"

definition emit :: "event \<Rightarrow> (world, unit) eio" where
  "emit ev w = (Inr (), w\<lparr>trace := trace w @ [ev]\<rparr>)"

text \<open>\<open>await new Promise(resolve => setTimeout(resolve, ms))\<close>\<close>

definition sleep :: "nat \<Rightarrow> (world, unit) eio" where
  "sleep ms w = (Inr (), w\<lparr>now := now w + ms, trace := trace w @ [Slept ms]\<rparr>)"

definition consoleError :: "string \<Rightarrow> (world, unit) eio" where
  "consoleError label = emit (Logged label)"

definition alert :: "string \<Rightarrow> string \<Rightarrow> (world, unit) eio" where
  "alert title message = emit (Alerted title message)"

text \<open>
  Alerts are what the user sees. A host computation is \<open>quiet\<close> when it shows none.
\<close>

definition is_alert :: "event \<Rightarrow> bool" where
  "is_alert ev = (case ev of Alerted _ _ \<Rightarrow> True | _ \<Rightarrow> False)"

definition quiet :: "(world, 'a) eio \<Rightarrow> bool" where
  "quiet m = (\<forall>w. filter is_alert (trace (snd (m w))) = filter is_alert (trace w))"

text \<open>The decimal digits of a number, as a template literal prints \<open>Date.now()\<close>.\<close>

fun decimal :: "nat \<Rightarrow> string" where
  "decimal n =
     (if n < 10 then [''0123456789'' ! n]
      else decimal (n div 10) @ [''0123456789'' ! (n mod 10)])"

declare decimal.simps [simp del]

subsection \<open>The file-system calls of the SDK\<close>

text \<open>
  \<open>getInfoAsync(p).exists\<close> tells whether a file or directory is at \<open>p\<close>;
  \<open>deleteAsync\<close> removes it and rejects when nothing is there; \<open>copyAsync\<close> rejects
  when the source file is missing and otherwise stores the source's bytes at the
  target; \<open>makeDirectoryAsync\<close> adds a directory. Each rejects when the host refuses.
\<close>

definition getInfoAsync :: "string \<Rightarrow> (world, bool) eio" where
  "getInfoAsync p w =
     (if refuses w (OpInfo p) then (Inl (Thrown ''getInfoAsync''), w)
      else (Inr (files w p \<noteq> None \<or> p \<in> dirs w), w))"

definition deleteAsync :: "string \<Rightarrow> (world, unit) eio" where
  "deleteAsync p w =
     (if refuses w (OpDelete p) \<or> (files w p = None \<and> p \<notin> dirs w)
      then (Inl (Thrown ''deleteAsync''), w)
      else (Inr (), w\<lparr>files := (files w)(p := None), dirs := dirs w - {p},
                        trace := trace w @ [Deleted p]\<rparr>))"

definition copyAsync :: "string \<Rightarrow> string \<Rightarrow> (world, unit) eio" where
  "copyAsync from to w =
     (case files w from of
        None \<Rightarrow> (Inl (Thrown ''copyAsync''), w)
      | Some content \<Rightarrow>
          if refuses w (OpCopy from to) then (Inl (Thrown ''copyAsync''), w)
          else (Inr (), w\<lparr>files := (files w)(to \<mapsto> content),
                            trace := trace w @ [Copied from to]\<rparr>))"

definition makeDirectoryAsync :: "string \<Rightarrow> (world, unit) eio" where
  "makeDirectoryAsync p w =
     (if refuses w (OpMkdir p) then (Inl (Thrown ''makeDirectoryAsync''), w)
      else (Inr (), w\<lparr>dirs := insert p (dirs w), trace := trace w @ [MadeDir p]\<rparr>))"

section \<open>utils/fileSystem\<close>

definition saveAudioToCache :: "string \<Rightarrow> string \<Rightarrow> (world, string) eio" where
  "saveAudioToCache uri filename w =
     (if os w = Web then returnE uri w
      else
        (let destination = cacheDirectory w @ filename in
         try_catch
           (bindE (getInfoAsync destination) (\<lambda>exists.
            bindE (if exists then deleteAsync destination else returnE ()) (\<lambda>_.
            bindE (copyAsync uri destination) (\<lambda>_.
            returnE destination))))
           (\<lambda>err. bindE (consoleError ''Error saving file to cache:'') (\<lambda>_. throwE err))) w)"

definition createTempDirectory :: "(world, string) eio" where
  "createTempDirectory w =
     (if os w = Web then returnE [] w
      else
        (let tempDir = cacheDirectory w @ ''temp_'' @ decimal (now w) @ ''/'' in
         try_catch
           (bindE (getInfoAsync tempDir) (\<lambda>exists.
            bindE (if \<not> exists then makeDirectoryAsync tempDir else returnE ()) (\<lambda>_.
            returnE tempDir)))
           (\<lambda>err. bindE (consoleError ''Error creating temp directory:'') (\<lambda>_. throwE err))) w)"

section \<open>utils/audioProcessing\<close>

record ProcessingResult =
  pr_success :: bool
  pr_vocalTrack :: "string option"
  pr_instrumentalTrack :: "string option"
  pr_error :: "string option"

record MergeResult =
  mr_success :: bool
  mr_outputUri :: "string option"
  mr_error :: "string option"

definition webProcessAudio :: "string \<Rightarrow> (world, ProcessingResult) eio" where
  "webProcessAudio audioUri =
     try_catch
       (bindE (sleep 3000) (\<lambda>_.
        let vocalTrack = audioUri @ ''_vocals'';
            instrumentalTrack = audioUri @ ''_instrumental''
        in returnE \<lparr>pr_success = True, pr_vocalTrack = Some vocalTrack,
                     pr_instrumentalTrack = Some instrumentalTrack, pr_error = None\<rparr>))
       (\<lambda>error. bindE (consoleError ''Web audio processing error:'') (\<lambda>_.
          returnE \<lparr>pr_success = False, pr_vocalTrack = None, pr_instrumentalTrack = None,
                   pr_error = Some ''Failed to process audio with WebAssembly.''\<rparr>))"

definition nativeProcessAudio :: "string \<Rightarrow> (world, ProcessingResult) eio" where
  "nativeProcessAudio audioUri =
     try_catch
       (bindE (sleep 3000) (\<lambda>_.
        bindE createTempDirectory (\<lambda>tempDir.
        let vocalTrack = tempDir @ ''vocals.mp3'';
            instrumentalTrack = tempDir @ ''instrumental.mp3''
        in bindE (copyAsync audioUri vocalTrack) (\<lambda>_.
           bindE (copyAsync audioUri instrumentalTrack) (\<lambda>_.
           returnE \<lparr>pr_success = True, pr_vocalTrack = Some vocalTrack,
                    pr_instrumentalTrack = Some instrumentalTrack, pr_error = None\<rparr>)))))
       (\<lambda>error. bindE (consoleError ''Native audio processing error:'') (\<lambda>_.
          returnE \<lparr>pr_success = False, pr_vocalTrack = None, pr_instrumentalTrack = None,
                   pr_error = Some ''Failed to process audio on device.''\<rparr>))"

definition processingAudio :: "string \<Rightarrow> (world, ProcessingResult) eio" where
  "processingAudio audioUri w =
     (if os w = Web then webProcessAudio audioUri w else nativeProcessAudio audioUri w)"

definition webMergeAudio :: "string \<Rightarrow> string \<Rightarrow> real \<Rightarrow> real \<Rightarrow> (world, MergeResult) eio" where
  "webMergeAudio vocalUri instrumentalUri vocalVolume instrumentalVolume =
     try_catch
       (bindE (sleep 2000) (\<lambda>_. \<lambda>w.
        (let outputUri = ''mixed_'' @ decimal (now w) @ ''.mp3''
         in returnE \<lparr>mr_success = True, mr_outputUri = Some outputUri, mr_error = None\<rparr>) w))
       (\<lambda>error. bindE (consoleError ''Web audio merging error:'') (\<lambda>_.
          returnE \<lparr>mr_success = False, mr_outputUri = None,
                   mr_error = Some ''Failed to merge audio tracks in browser.''\<rparr>))"

definition nativeMergeAudio :: "string \<Rightarrow> string \<Rightarrow> real \<Rightarrow> real \<Rightarrow> (world, MergeResult) eio" where
  "nativeMergeAudio vocalUri instrumentalUri vocalVolume instrumentalVolume =
     try_catch
       (bindE (sleep 2000) (\<lambda>_. \<lambda>w.
        (let outputUri = cacheDirectory w @ ''mixed_'' @ decimal (now w) @ ''.mp3''
         in bindE (copyAsync vocalUri outputUri) (\<lambda>_.
            returnE \<lparr>mr_success = True, mr_outputUri = Some outputUri, mr_error = None\<rparr>)) w))
       (\<lambda>error. bindE (consoleError ''Native audio merging error:'') (\<lambda>_.
          returnE \<lparr>mr_success = False, mr_outputUri = None,
                   mr_error = Some ''Failed to merge audio tracks on device.''\<rparr>))"

definition mergeAudioTracks :: "string \<Rightarrow> string \<Rightarrow> real \<Rightarrow> real \<Rightarrow> (world, MergeResult) eio" where
  "mergeAudioTracks vocalUri instrumentalUri vocalVolume instrumentalVolume w =
     (if os w = Web
      then webMergeAudio vocalUri instrumentalUri vocalVolume instrumentalVolume w
      else nativeMergeAudio vocalUri instrumentalUri vocalVolume instrumentalVolume w)"

section \<open>The audio and picker calls of the SDK\<close>

text \<open>
  A loaded sound is a handle. \<open>Audio.Sound.createAsync\<close> hands out the next handle;
  \<open>unloadAsync\<close>, \<open>stopAsync\<close> and \<open>setPositionAsync\<close> act on one. Each rejects when
  the host refuses. \<open>DocumentPicker.getDocumentAsync\<close> resolves to what the user picks
  or rejects.
\<close>

definition createAsync :: "string \<Rightarrow> (world, nat) eio" where
  "createAsync uri w =
     (if refuses w (OpCreate uri) then (Inl (Thrown ''createAsync''), w)
      else (Inr (next_sound w),
            w\<lparr>next_sound := next_sound w + 1,
              trace := trace w @ [Created (next_sound w) uri]\<rparr>))"

definition unloadAsync :: "nat \<Rightarrow> (world, unit) eio" where
  "unloadAsync sound w =
     (if refuses w (OpUnload sound) then (Inl (Thrown ''unloadAsync''), w)
      else emit (Unloaded sound) w)"

definition stopAsync :: "nat \<Rightarrow> (world, unit) eio" where
  "stopAsync sound w =
     (if refuses w (OpStop sound) then (Inl (Thrown ''stopAsync''), w)
      else emit (Stopped sound) w)"

definition setPositionAsync :: "nat \<Rightarrow> (world, unit) eio" where
  "setPositionAsync sound w =
     (if refuses w (OpSeek sound) then (Inl (Thrown ''setPositionAsync''), w)
      else emit (Seeked sound) w)"

definition getStatusAsync :: "nat \<Rightarrow> (world, bool \<times> nat option) eio" where
  "getStatusAsync sound w =
     (if refuses w (OpStatus sound) then (Inl (Thrown ''getStatusAsync''), w)
      else (Inr (status_of w sound), w))"

definition getDocumentAsync :: "(world, DocumentPickerResult) eio" where
  "getDocumentAsync w = (picker w, w)"

section \<open>Screens: component state beside the host\<close>

text \<open>
  A screen function runs on its component state paired with the host. It reads the
  state variables of the render that created it (the snapshot \<open>r\<close>) and writes
  through the setters. \<open>host\<close> runs a host call, \<open>setState\<close> a setter.
  \<open>falsy\<close> is JavaScript's \<open>!s\<close> on a string that may be undefined.
\<close>

definition host :: "(world, 'a) eio \<Rightarrow> ('u \<times> world, 'a) eio" where
  "host m s = (case m (snd s) of (r, w') \<Rightarrow> (r, (fst s, w')))"

definition setState :: "('u \<Rightarrow> 'u) \<Rightarrow> ('u \<times> world, unit) eio" where
  "setState f s = (Inr (), (f (fst s), snd s))"

definition falsy :: "string option \<Rightarrow> bool" where
  "falsy s = (case s of None \<Rightarrow> True | Some t \<Rightarrow> t = [])"

text \<open>\<open>a || b\<close> on strings\<close>

definition or_else :: "string option \<Rightarrow> string \<Rightarrow> string" where
  "or_else s d = (case s of None \<Rightarrow> d | Some t \<Rightarrow> if t = [] then d else t)"

subsection \<open>EditorScreen\<close>

datatype playback_mode = Original | Processed

record EditorState =
  ed_audioUri :: "string option"
  ed_isProcessing :: bool
  ed_isProcessed :: bool
  ed_vocalTrack :: "string option"
  ed_instrumentalTrack :: "string option"
  ed_vocalVolume :: real
  ed_instrumentalVolume :: real
  ed_originalSound :: "nat option"
  ed_vocalSound :: "nat option"
  ed_instrumentalSound :: "nat option"
  ed_isPlaying :: bool
  ed_playbackMode :: playback_mode
  ed_duration :: real
  ed_position :: real

definition stopSound :: "nat option \<Rightarrow> string \<Rightarrow> (EditorState \<times> world, unit) eio" where
  "stopSound sound label =
     (case sound of
        None \<Rightarrow> returnE ()
      | Some h \<Rightarrow>
          try_catch
            (bindE (host (stopAsync h)) (\<lambda>_. host (setPositionAsync h)))
            (\<lambda>err. host (consoleError label)))"

definition stopAllPlayback :: "EditorState \<Rightarrow> (EditorState \<times> world, unit) eio" where
  "stopAllPlayback r =
     bindE (setState (ed_isPlaying_update (\<lambda>_. False))) (\<lambda>_.
     bindE (stopSound (ed_originalSound r) ''Failed to stop original sound'') (\<lambda>_.
     bindE (stopSound (ed_vocalSound r) ''Failed to stop vocal sound'') (\<lambda>_.
     bindE (stopSound (ed_instrumentalSound r) ''Failed to stop instrumental sound'') (\<lambda>_.
     setState (ed_position_update (\<lambda>_. 0))))))"

definition createFrom :: "string option \<Rightarrow> (EditorState \<times> world, nat) eio" where
  "createFrom uri =
     (case uri of None \<Rightarrow> throwE (Thrown ''createAsync'') | Some u \<Rightarrow> host (createAsync u))"

definition loadProcessedTracks ::
  "EditorState \<Rightarrow> string option \<Rightarrow> string option \<Rightarrow> (EditorState \<times> world, unit) eio" where
  "loadProcessedTracks r vocalUri instrumentalUri =
     try_catch
       (bindE (case ed_vocalSound r of None \<Rightarrow> returnE ()
               | Some h \<Rightarrow> host (unloadAsync h)) (\<lambda>_.
        bindE (createFrom vocalUri) (\<lambda>newVocalSound.
        bindE (setState (ed_vocalSound_update (\<lambda>_. Some newVocalSound))) (\<lambda>_.
        bindE (case ed_instrumentalSound r of None \<Rightarrow> returnE ()
               | Some h \<Rightarrow> host (unloadAsync h)) (\<lambda>_.
        bindE (createFrom instrumentalUri) (\<lambda>newInstrumentalSound.
        setState (ed_instrumentalSound_update (\<lambda>_. Some newInstrumentalSound))))))))
       (\<lambda>err. host (consoleError ''Failed to load processed tracks''))"

text \<open>
  \<open>processAudio\<close>, with the imported \<open>processingAudio\<close> as a parameter, so that what
  the screen does is stated for any processing function, also one that rejects.
\<close>

definition processAudio_with ::
  "(string \<Rightarrow> (world, ProcessingResult) eio) \<Rightarrow> EditorState \<Rightarrow> (EditorState \<times> world, unit) eio" where
  "processAudio_with processing r =
     (if falsy (ed_audioUri r) then returnE ()
      else
        bindE (setState (ed_isProcessing_update (\<lambda>_. True))) (\<lambda>_.
        try_finally
          (try_catch
             (bindE (stopAllPlayback r) (\<lambda>_.
              bindE (host (processing (or_else (ed_audioUri r) []))) (\<lambda>result.
              if pr_success result then
                bindE (setState (ed_vocalTrack_update (\<lambda>_. pr_vocalTrack result))) (\<lambda>_.
                bindE (setState (ed_instrumentalTrack_update (\<lambda>_. pr_instrumentalTrack result))) (\<lambda>_.
                bindE (setState (ed_isProcessed_update (\<lambda>_. True))) (\<lambda>_.
                bindE (loadProcessedTracks r (pr_vocalTrack result) (pr_instrumentalTrack result)) (\<lambda>_.
                setState (ed_playbackMode_update (\<lambda>_. Processed))))))
              else
                host (alert ''Processing Failed''
                        (or_else (pr_error result) ''Failed to process audio.'')))))
             (\<lambda>err. bindE (host (consoleError ''Failed to process audio'')) (\<lambda>_.
                host (alert ''Error'' ''Failed to process audio. Please try again.''))))
          (setState (ed_isProcessing_update (\<lambda>_. False)))))"

definition processAudio :: "EditorState \<Rightarrow> (EditorState \<times> world, unit) eio" where
  "processAudio = processAudio_with processingAudio"

subsection \<open>ExportScreen\<close>

text \<open>
  \<open>ex_vocalVol\<close> and \<open>ex_instrumentalVol\<close> are the volumes the render has parsed
  from its navigation parameters.
\<close>

record ExportState =
  ex_vocalTrack :: "string option"
  ex_instrumentalTrack :: "string option"
  ex_vocalVol :: real
  ex_instrumentalVol :: real
  ex_isMerging :: bool
  ex_exportedUri :: "string option"
  ex_exportName :: string

definition exportAudio_with ::
  "(string \<Rightarrow> string \<Rightarrow> real \<Rightarrow> real \<Rightarrow> (world, MergeResult) eio) \<Rightarrow>
   ExportState \<Rightarrow> (ExportState \<times> world, unit) eio" where
  "exportAudio_with merge r =
     (if falsy (ex_vocalTrack r) \<or> falsy (ex_instrumentalTrack r) then
        host (alert ''Error'' ''Missing audio tracks. Please go back to the editor.'')
      else
        bindE (setState (ex_isMerging_update (\<lambda>_. True))) (\<lambda>_.
        try_finally
          (try_catch
             (bindE (host (merge (or_else (ex_vocalTrack r) []) (or_else (ex_instrumentalTrack r) [])
                            (ex_vocalVol r) (ex_instrumentalVol r))) (\<lambda>result.
              if mr_success result then
                bindE (setState (ex_exportedUri_update (\<lambda>_. mr_outputUri result))) (\<lambda>_.
                host (alert ''Success'' ''Your audio has been successfully exported!''))
              else
                host (alert ''Export Failed'' (or_else (mr_error result) ''Failed to export audio.''))))
             (\<lambda>err. bindE (host (consoleError ''Failed to export audio'')) (\<lambda>_.
                host (alert ''Error'' ''Failed to export audio. Please try again.''))))
          (setState (ex_isMerging_update (\<lambda>_. False)))))"

definition exportAudio :: "ExportState \<Rightarrow> (ExportState \<times> world, unit) eio" where
  "exportAudio = exportAudio_with mergeAudioTracks"

subsection \<open>UploadScreen\<close>

record UploadState =
  up_audioUri :: "string option"
  up_fileName :: "string option"
  up_sound :: "nat option"
  up_isPlaying :: bool
  up_duration :: real
  up_position :: real

definition loadAudio :: "string \<Rightarrow> (UploadState \<times> world, unit) eio" where
  "loadAudio uri =
     try_catch
       (bindE (host (createAsync uri)) (\<lambda>newSound.
        bindE (setState (up_sound_update (\<lambda>_. Some newSound))) (\<lambda>_.
        bindE (host (getStatusAsync newSound)) (\<lambda>status.
        if fst status then
          setState (up_duration_update (\<lambda>_.
            case snd status of None \<Rightarrow> 0
            | Some d \<Rightarrow> if d = 0 then 0 else real d / 1000))
        else returnE ()))))
       (\<lambda>err. bindE (host (consoleError ''Failed to load audio'')) (\<lambda>_.
          host (alert ''Error'' ''Failed to load audio file. The format may not be supported.'')))"

text \<open>\<open>asset.size && asset.size > 50 * 1024 * 1024\<close>\<close>

definition too_large :: "asset \<Rightarrow> bool" where
  "too_large a =
     (case asset_size a of None \<Rightarrow> False
      | Some n \<Rightarrow> n \<noteq> 0 \<and> n > 50 * 1024 * 1024)"

definition pickAudio :: "UploadState \<Rightarrow> (UploadState \<times> world, unit) eio" where
  "pickAudio r =
     try_catch
       (bindE (host getDocumentAsync) (\<lambda>result.
        if canceled result then returnE ()
        else
          bindE (case up_sound r of
                   None \<Rightarrow> returnE ()
                 | Some sound \<Rightarrow>
                     bindE (host (unloadAsync sound)) (\<lambda>_.
                     bindE (setState (up_sound_update (\<lambda>_. None))) (\<lambda>_.
                     setState (up_isPlaying_update (\<lambda>_. False))))) (\<lambda>_.
          case assets result of
            [] \<Rightarrow> throwE (Thrown ''TypeError'')
          | asset # _ \<Rightarrow>
              bindE (setState (up_fileName_update (\<lambda>_. Some (asset_name asset)))) (\<lambda>_.
              if too_large asset then
                host (alert ''File too large'' ''Please select an audio file smaller than 50MB'')
              else
                try_catch
                  (bindE (host (saveAudioToCache (asset_uri asset) (asset_name asset))) (\<lambda>savedUri.
                   bindE (setState (up_audioUri_update (\<lambda>_. Some savedUri))) (\<lambda>_.
                   loadAudio savedUri)))
                  (\<lambda>err.
                   bindE (host (consoleError ''Invalid audio file:'')) (\<lambda>_.
                   bindE (host (alert ''Invalid File'' ''Please select a valid audio file'')) (\<lambda>_.
                   bindE (setState (up_audioUri_update (\<lambda>_. None))) (\<lambda>_.
                   setState (up_fileName_update (\<lambda>_. None))))))))))
       (\<lambda>err. bindE (host (consoleError ''Error picking document:'')) (\<lambda>_.
          host (alert ''Error'' ''Failed to pick audio file. Please try again.'')))"

section \<open>Components\<close>

subsection \<open>AudioWaveform\<close>

text \<open>
  The bar heights are computed over the real numbers. \<open>Math.random()\<close> is a sequence
  of draws, the \<open>i\<close>-th loop iteration taking draw \<open>i\<close>.
\<close>

definition BAR_COUNT :: nat where
  "BAR_COUNT = 50"

definition MAX_BAR_HEIGHT :: real where
  "MAX_BAR_HEIGHT = 80"

function bars_loop :: "(nat \<Rightarrow> real) \<Rightarrow> nat \<Rightarrow> real list \<Rightarrow> real list" where
  "bars_loop random i heights =
     (if i < BAR_COUNT then
        (let randomValue = 0.1 + random i * 0.9;
             bellCurve = sin ((real i / real BAR_COUNT) * pi);
             height = MAX_BAR_HEIGHT * randomValue * bellCurve
         in bars_loop random (i + 1) (heights @ [max 5 height]))
      else heights)"
  by pat_completeness auto
termination
  by (relation "measure (\<lambda>(random, i, heights). BAR_COUNT - i)") auto

declare bars_loop.simps [simp del]

definition generateRandomBars :: "(nat \<Rightarrow> real) \<Rightarrow> real list" where
  "generateRandomBars random = bars_loop random 0 []"

subsection \<open>Slider: the arithmetic of JavaScript numbers\<close>

text \<open>
  \<open>calculateValue\<close> is modelled in the arithmetic that JavaScript numbers have, IEEE
  754 binary64 with rounding to nearest, ties to even.
\<close>

text \<open>
  A double is NaN, an infinity with its sign, or a finite number with its sign and its
  magnitude; the sign is \<open>True\<close> for negative, so that \<open>-0\<close> is
  \<open>Finite True 0\<close>. \<open>val\<close> is the real number a finite double stands for.
\<close>

datatype double = NaN | Infinity bool | Finite bool real

definition val :: "double \<Rightarrow> real" where
  "val d = (case d of Finite s m \<Rightarrow> (if s then - m else m) | _ \<Rightarrow> 0)"

text \<open>
  Rounding a real number to the nearest double, ties to even. \<open>exponent a\<close> is the
  \<open>e\<close> with \<open>2^e \<le> a < 2^(e+1)\<close>; the doubles around \<open>a\<close> are the multiples of
  \<open>2^(e - 52)\<close>, with \<open>e\<close> no smaller than \<open>-1022\<close> (below that the subnormal
  numbers keep the spacing \<open>2^(-1074)\<close>); a result of \<open>2^1024\<close> or more is an
  infinity.
\<close>

definition pow2 :: "int \<Rightarrow> real" where
  "pow2 e = (if 0 \<le> e then 2 ^ nat e else 1 / 2 ^ nat (- e))"

definition exponent :: "real \<Rightarrow> int" where
  "exponent a = (if 1 \<le> a then bitlen \<lfloor>a\<rfloor> - 1 else - bitlen (\<lceil>1 / a\<rceil> - 1))"

definition round_half_even :: "real \<Rightarrow> int" where
  "round_half_even x =
     (let f = \<lfloor>x\<rfloor>; r = x - of_int f
      in if r < 1 / 2 then f else if 1 / 2 < r then f + 1
         else if even f then f else f + 1)"

definition round_to_double :: "real \<Rightarrow> double" where
  "round_to_double x =
     (let a = \<bar>x\<bar>;
          e = max (- 1022) (min 1023 (exponent a));
          q = pow2 (e - 52);
          m = of_int (round_half_even (a / q)) * q
      in if pow2 1024 \<le> m then Infinity (x < 0) else Finite (x < 0) m)"

text \<open>
  The operators \<open>+\<close>, \<open>-\<close>, \<open>*\<close>, \<open>/\<close>, \<open><\<close> and \<open><=\<close> on numbers: the IEEE rules
  for NaN, the infinities and the signed zeros, and otherwise the exact result
  rounded.
\<close>

definition dneg :: "double \<Rightarrow> double" where
  "dneg x = (case x of NaN \<Rightarrow> NaN | Infinity s \<Rightarrow> Infinity (\<not> s) | Finite s m \<Rightarrow> Finite (\<not> s) m)"

fun dadd :: "double \<Rightarrow> double \<Rightarrow> double" where
  "dadd NaN y = NaN"
| "dadd x NaN = NaN"
| "dadd (Infinity s) (Infinity t) = (if s = t then Infinity s else NaN)"
| "dadd (Infinity s) (Finite t n) = Infinity s"
| "dadd (Finite s m) (Infinity t) = Infinity t"
| "dadd (Finite s m) (Finite t n) =
     (let r = val (Finite s m) + val (Finite t n)
      in if r = 0 then Finite (s \<and> t) 0 else round_to_double r)"

definition dsub :: "double \<Rightarrow> double \<Rightarrow> double" where
  "dsub x y = dadd x (dneg y)"

fun dmul :: "double \<Rightarrow> double \<Rightarrow> double" where
  "dmul NaN y = NaN"
| "dmul x NaN = NaN"
| "dmul (Infinity s) (Infinity t) = Infinity (s \<noteq> t)"
| "dmul (Infinity s) (Finite t n) = (if n = 0 then NaN else Infinity (s \<noteq> t))"
| "dmul (Finite s m) (Infinity t) = (if m = 0 then NaN else Infinity (s \<noteq> t))"
| "dmul (Finite s m) (Finite t n) =
     (if m = 0 \<or> n = 0 then Finite (s \<noteq> t) 0
      else round_to_double (val (Finite s m) * val (Finite t n)))"

fun ddiv :: "double \<Rightarrow> double \<Rightarrow> double" where
  "ddiv NaN y = NaN"
| "ddiv x NaN = NaN"
| "ddiv (Infinity s) (Infinity t) = NaN"
| "ddiv (Infinity s) (Finite t n) = Infinity (s \<noteq> t)"
| "ddiv (Finite s m) (Infinity t) = Finite (s \<noteq> t) 0"
| "ddiv (Finite s m) (Finite t n) =
     (if n = 0 then (if m = 0 then NaN else Infinity (s \<noteq> t))
      else if m = 0 then Finite (s \<noteq> t) 0
      else round_to_double (val (Finite s m) / val (Finite t n)))"

fun dlt :: "double \<Rightarrow> double \<Rightarrow> bool" where
  "dlt NaN y = False"
| "dlt x NaN = False"
| "dlt (Infinity s) (Infinity t) = (s \<and> \<not> t)"
| "dlt (Infinity s) (Finite t n) = s"
| "dlt (Finite s m) (Infinity t) = (\<not> t)"
| "dlt (Finite s m) (Finite t n) = (val (Finite s m) < val (Finite t n))"


text \<open>
  \<open>Math.round\<close> gives the nearest integer, halves upwards, and \<open>-0\<close> for \<open>-0\<close> and for
  the numbers from \<open>-0.5\<close> up to zero; \<open>Math.max\<close> and \<open>Math.min\<close> give NaN when an
  argument is NaN and take \<open>+0\<close> to be larger than \<open>-0\<close>; \<open>!x\<close> holds of a number
  that is zero or NaN.
\<close>

definition Math_round :: "double \<Rightarrow> double" where
  "Math_round x =
     (case x of
        NaN \<Rightarrow> NaN
      | Infinity s \<Rightarrow> Infinity s
      | Finite s m \<Rightarrow>
          (let n = \<lfloor>val (Finite s m) + 1 / 2\<rfloor>
           in if n = 0 then Finite s 0 else Finite (n < 0) (of_int \<bar>n\<bar>)))"

definition Math_max :: "double \<Rightarrow> double \<Rightarrow> double" where
  "Math_max a b =
     (if a = NaN \<or> b = NaN then NaN
      else if dlt a b then b
      else if a = Finite True 0 \<and> b = Finite False 0 then b
      else a)"

definition Math_min :: "double \<Rightarrow> double \<Rightarrow> double" where
  "Math_min a b =
     (if a = NaN \<or> b = NaN then NaN
      else if dlt b a then b
      else if a = Finite False 0 \<and> b = Finite True 0 then b
      else a)"

definition falsy_number :: "double \<Rightarrow> bool" where
  "falsy_number x = (case x of NaN \<Rightarrow> True | Infinity s \<Rightarrow> False | Finite s m \<Rightarrow> m = 0)"

text \<open>The Slider's \<open>calculateValue\<close>, with the component's props as arguments.\<close>

definition calculateValue :: "double \<Rightarrow> double \<Rightarrow> double \<Rightarrow> double \<Rightarrow> double" where
  "calculateValue minimumValue maximumValue step pos =
     (let rawValue =
            dadd minimumValue
              (dmul (ddiv pos (Finite False 100)) (dsub maximumValue minimumValue))
      in if falsy_number step then rawValue
         else
           (let steppedValue = dmul (Math_round (ddiv rawValue step)) step
            in Math_min (Math_max steppedValue minimumValue) maximumValue))"


section \<open>Example hosts and screen states\<close>

definition device :: world where
  "device =
     \<lparr>os = Native, cacheDirectory = ''/cache/'',
      files = [''/in/song.mp3'' \<mapsto> [73, 68, 51]], dirs = {''/cache/''}, now = 41,
      refuses = (\<lambda>_. False), picker = Inl (Thrown ''dismissed''),
      status_of = (\<lambda>_. (True, None)), next_sound = 0, trace = []\<rparr>"

definition browser :: world where
  "browser =
     \<lparr>os = Web, cacheDirectory = [],
      files = [''blob:song'' \<mapsto> [73, 68, 51]], dirs = {}, now = 41,
      refuses = (\<lambda>_. False), picker = Inl (Thrown ''dismissed''),
      status_of = (\<lambda>_. (True, None)), next_sound = 0, trace = []\<rparr>"

definition editor0 :: EditorState where
  "editor0 =
     \<lparr>ed_audioUri = Some ''/in/missing.mp3'', ed_isProcessing = False, ed_isProcessed = False,
      ed_vocalTrack = None, ed_instrumentalTrack = None, ed_vocalVolume = 1,
      ed_instrumentalVolume = 1, ed_originalSound = None, ed_vocalSound = None,
      ed_instrumentalSound = None, ed_isPlaying = False, ed_playbackMode = Original,
      ed_duration = 0, ed_position = 0\<rparr>"

definition export0 :: ExportState where
  "export0 =
     \<lparr>ex_vocalTrack = Some ''/in/missing.mp3'', ex_instrumentalTrack = Some ''/in/song.mp3'',
      ex_vocalVol = 1, ex_instrumentalVol = 1 / 2, ex_isMerging = False,
      ex_exportedUri = None, ex_exportName = ''mixed_audio.mp3''\<rparr>"

definition big :: asset where
  "big = \<lparr>asset_uri = ''/picked/big.wav'', asset_name = ''big.wav'', asset_size = Some 60000000\<rparr>"

definition upload0 :: UploadState where
  "upload0 =
     \<lparr>up_audioUri = Some ''/cache/old.mp3'', up_fileName = Some ''old.mp3'', up_sound = Some 0,
      up_isPlaying = True, up_duration = 12, up_position = 3\<rparr>"

definition picking :: world where
  "picking = device\<lparr>picker := Inr \<lparr>canceled = False, assets = [big]\<rparr>, next_sound := 1\<rparr>"

section \<open>Properties of the processing utilities\<close>

lemmas eio_defs = returnE_def throwE_def bindE_def try_catch_def try_finally_def emit_def
  sleep_def consoleError_def alert_def

lemmas fs_defs = getInfoAsync_def deleteAsync_def copyAsync_def makeDirectoryAsync_def

lemma webProcessAudio_eq:
  "webProcessAudio uri w =
     (Inr \<lparr>pr_success = True, pr_vocalTrack = Some (uri @ ''_vocals''),
           pr_instrumentalTrack = Some (uri @ ''_instrumental''), pr_error = None\<rparr>,
      w\<lparr>now := now w + 3000, trace := trace w @ [Slept 3000]\<rparr>)"
  by (simp add: webProcessAudio_def eio_defs)








lemma nativeMergeAudio_eq:
  "nativeMergeAudio vocalUri instrumentalUri vocalVolume instrumentalVolume w =
     (let outputUri = cacheDirectory w @ ''mixed_'' @ decimal (now w + 2000) @ ''.mp3'' in
      case files w vocalUri of
        Some content \<Rightarrow>
          if refuses w (OpCopy vocalUri outputUri) then
            (Inr \<lparr>mr_success = False, mr_outputUri = None,
                  mr_error = Some ''Failed to merge audio tracks on device.''\<rparr>,
             w\<lparr>now := now w + 2000,
               trace := trace w @ [Slept 2000, Logged ''Native audio merging error:'']\<rparr>)
          else
            (Inr \<lparr>mr_success = True, mr_outputUri = Some outputUri, mr_error = None\<rparr>,
             w\<lparr>now := now w + 2000, files := (files w)(outputUri \<mapsto> content),
               trace := trace w @ [Slept 2000, Copied vocalUri outputUri]\<rparr>)
      | None \<Rightarrow>
          (Inr \<lparr>mr_success = False, mr_outputUri = None,
                mr_error = Some ''Failed to merge audio tracks on device.''\<rparr>,
           w\<lparr>now := now w + 2000,
             trace := trace w @ [Slept 2000, Logged ''Native audio merging error:'']\<rparr>))"
  by (simp add: nativeMergeAudio_def Let_def eio_defs copyAsync_def split: option.splits)

lemma webMergeAudio_eq:
  "webMergeAudio vocalUri instrumentalUri vocalVolume instrumentalVolume w =
     (Inr \<lparr>mr_success = True,
           mr_outputUri = Some (''mixed_'' @ decimal (now w + 2000) @ ''.mp3''),
           mr_error = None\<rparr>,
      w\<lparr>now := now w + 2000, trace := trace w @ [Slept 2000]\<rparr>)"
  by (simp add: webMergeAudio_def Let_def eio_defs)

text \<open>
  C2, as the code has it. \<open>mergeAudioTracks\<close> first sleeps 2000 ms. On web it then
  returns \<open>success: true\<close> with an output name and stores nothing. On native, when the
  vocal file exists and the host does not refuse the copy, it returns
  \<open>success: true\<close> and the file at \<open>outputUri\<close> holds exactly the bytes of the vocal
  file; when the vocal file is missing or the copy is refused, it returns
  \<open>success: false\<close> with an error message. No mixing happens, and the instrumental
  URI is never read: any other instrumental URI gives the same outcome.
\<close>

theorem mergeAudioTracks_outcome:
  "(os w = Web \<longrightarrow>
      mergeAudioTracks vocalUri instrumentalUri vocalVolume instrumentalVolume w =
        (Inr \<lparr>mr_success = True,
              mr_outputUri = Some (''mixed_'' @ decimal (now w + 2000) @ ''.mp3''),
              mr_error = None\<rparr>,
         w\<lparr>now := now w + 2000, trace := trace w @ [Slept 2000]\<rparr>)) \<and>
   (os w = Native \<and> files w vocalUri = Some content \<and>
    \<not> refuses w (OpCopy vocalUri (cacheDirectory w @ ''mixed_'' @ decimal (now w + 2000) @ ''.mp3'')) \<longrightarrow>
      mergeAudioTracks vocalUri instrumentalUri vocalVolume instrumentalVolume w =
        (Inr \<lparr>mr_success = True,
              mr_outputUri = Some (cacheDirectory w @ ''mixed_'' @ decimal (now w + 2000) @ ''.mp3''),
              mr_error = None\<rparr>,
         w\<lparr>now := now w + 2000,
           files := (files w)(cacheDirectory w @ ''mixed_'' @ decimal (now w + 2000) @ ''.mp3''
                              \<mapsto> content),
           trace := trace w @
             [Slept 2000,
              Copied vocalUri (cacheDirectory w @ ''mixed_'' @ decimal (now w + 2000) @ ''.mp3'')]\<rparr>)) \<and>
   (os w = Native \<and>
    (files w vocalUri = None \<or>
     refuses w (OpCopy vocalUri (cacheDirectory w @ ''mixed_'' @ decimal (now w + 2000) @ ''.mp3''))) \<longrightarrow>
      mergeAudioTracks vocalUri instrumentalUri vocalVolume instrumentalVolume w =
        (Inr \<lparr>mr_success = False, mr_outputUri = None,
              mr_error = Some ''Failed to merge audio tracks on device.''\<rparr>,
         w\<lparr>now := now w + 2000,
           trace := trace w @ [Slept 2000, Logged ''Native audio merging error:'']\<rparr>)) \<and>
   mergeAudioTracks vocalUri instrumentalUri vocalVolume instrumentalVolume w =
     mergeAudioTracks vocalUri instrumentalUri' vocalVolume instrumentalVolume w"
  by (cases "os w")
    (auto simp add: mergeAudioTracks_def webMergeAudio_eq nativeMergeAudio_eq Let_def
      split: option.splits)

theorem mergeAudioTracks_outcome_witness:
  "os device = Native \<and> files device ''/in/song.mp3'' = Some [73, 68, 51] \<and>
   \<not> refuses device (OpCopy ''/in/song.mp3'' ''/cache/mixed_2041.mp3'') \<and>
   mergeAudioTracks ''/in/song.mp3'' ''/in/band.mp3'' (1 / 2) 1 device =
     (Inr \<lparr>mr_success = True, mr_outputUri = Some ''/cache/mixed_2041.mp3'', mr_error = None\<rparr>,
      device\<lparr>now := 2041,
        files := (files device)(''/cache/mixed_2041.mp3'' \<mapsto> [73, 68, 51]),
        trace := [Slept 2000, Copied ''/in/song.mp3'' ''/cache/mixed_2041.mp3'']\<rparr>) \<and>
   files device ''/in/missing.mp3'' = None \<and>
   mergeAudioTracks ''/in/missing.mp3'' ''/in/band.mp3'' (1 / 2) 1 device =
     (Inr \<lparr>mr_success = False, mr_outputUri = None,
           mr_error = Some ''Failed to merge audio tracks on device.''\<rparr>,
      device\<lparr>now := 2041, trace := [Slept 2000, Logged ''Native audio merging error:'']\<rparr>) \<and>
   os browser = Web \<and>
   mergeAudioTracks ''blob:song'' ''blob:band'' (1 / 2) 1 browser =
     (Inr \<lparr>mr_success = True, mr_outputUri = Some ''mixed_2041.mp3'', mr_error = None\<rparr>,
      browser\<lparr>now := 2041, trace := [Slept 2000]\<rparr>)"
proof -
  have d: "decimal 2041 = ''2041''" by (simp add: decimal.simps)
  have f: "os device = Native" "files device ''/in/song.mp3'' = Some [73, 68, 51]"
    "files device ''/in/missing.mp3'' = None"
    "\<not> refuses device (OpCopy ''/in/song.mp3'' ''/cache/mixed_2041.mp3'')"
    "cacheDirectory device = ''/cache/''" "now device = 41" "trace device = []"
    "os browser = Web" "now browser = 41" "trace browser = []"
    by (simp_all add: device_def browser_def)
  from mergeAudioTracks_outcome[of device "''/in/song.mp3''" "''/in/band.mp3''" "1 / 2" 1 "[73, 68, 51]"]
    mergeAudioTracks_outcome[of device "''/in/missing.mp3''" "''/in/band.mp3''" "1 / 2" 1]
    mergeAudioTracks_outcome[of browser "''blob:song''" "''blob:band''" "1 / 2" 1]
  show ?thesis by (simp add: f d)
qed

text \<open>
  On native, a vocal URI at which there is no file makes the merge return
  \<open>success: false\<close>, and no file is written.
\<close>

theorem mergeAudioTracks_missing_vocal_fails:
  "os device = Native \<and> files device ''/in/missing.mp3'' = None \<and>
   fst (mergeAudioTracks ''/in/missing.mp3'' ''/in/song.mp3'' 1 1 device) =
     Inr \<lparr>mr_success = False, mr_outputUri = None,
          mr_error = Some ''Failed to merge audio tracks on device.''\<rparr> \<and>
   files (snd (mergeAudioTracks ''/in/missing.mp3'' ''/in/song.mp3'' 1 1 device)) = files device"
  by (simp add: mergeAudioTracks_def nativeMergeAudio_eq Let_def device_def)

text \<open>
  C3. The outcome of \<open>mergeAudioTracks\<close> does not depend on the volume arguments: two
  runs from the same host state on the same two URIs return the same result record
  (the same success flag and output name) and leave the same files, whatever the four
  volumes are.
\<close>

theorem mergeAudioTracks_ignores_volumes:
  "mergeAudioTracks vocalUri instrumentalUri vocalVolume instrumentalVolume w =
   mergeAudioTracks vocalUri instrumentalUri vocalVolume' instrumentalVolume' w"
  by (simp add: mergeAudioTracks_def webMergeAudio_def nativeMergeAudio_def)

lemma createTempDirectory_native_eq:
  assumes "os w \<noteq> Web"
  shows "createTempDirectory w =
     (if refuses w (OpInfo (cacheDirectory w @ ''temp_'' @ decimal (now w) @ ''/''))
      then (Inl (Thrown ''getInfoAsync''),
            w\<lparr>trace := trace w @ [Logged ''Error creating temp directory:'']\<rparr>)
      else if files w (cacheDirectory w @ ''temp_'' @ decimal (now w) @ ''/'') \<noteq> None \<or>
              cacheDirectory w @ ''temp_'' @ decimal (now w) @ ''/'' \<in> dirs w
      then (Inr (cacheDirectory w @ ''temp_'' @ decimal (now w) @ ''/''), w)
      else if refuses w (OpMkdir (cacheDirectory w @ ''temp_'' @ decimal (now w) @ ''/''))
      then (Inl (Thrown ''makeDirectoryAsync''),
            w\<lparr>trace := trace w @ [Logged ''Error creating temp directory:'']\<rparr>)
      else (Inr (cacheDirectory w @ ''temp_'' @ decimal (now w) @ ''/''),
            w\<lparr>dirs := insert (cacheDirectory w @ ''temp_'' @ decimal (now w) @ ''/'') (dirs w),
              trace := trace w @
                [MadeDir (cacheDirectory w @ ''temp_'' @ decimal (now w) @ ''/'')]\<rparr>))"
  using assms by (simp add: createTempDirectory_def Let_def eio_defs fs_defs)

lemma nativeProcessAudio_result:
  assumes "os w \<noteq> Web"
  shows "fst (nativeProcessAudio uri w) =
     (let tempDir = cacheDirectory w @ ''temp_'' @ decimal (now w + 3000) @ ''/''
      in if \<not> refuses w (OpInfo tempDir) \<and>
            (files w tempDir \<noteq> None \<or> tempDir \<in> dirs w \<or> \<not> refuses w (OpMkdir tempDir)) \<and>
            files w uri \<noteq> None \<and>
            \<not> refuses w (OpCopy uri (tempDir @ ''vocals.mp3'')) \<and>
            \<not> refuses w (OpCopy uri (tempDir @ ''instrumental.mp3''))
         then Inr \<lparr>pr_success = True, pr_vocalTrack = Some (tempDir @ ''vocals.mp3''),
                   pr_instrumentalTrack = Some (tempDir @ ''instrumental.mp3''),
                   pr_error = None\<rparr>
         else Inr \<lparr>pr_success = False, pr_vocalTrack = None, pr_instrumentalTrack = None,
                   pr_error = Some ''Failed to process audio on device.''\<rparr>)"
proof -
  define t where "t = cacheDirectory w @ ''temp_'' @ decimal (now w + 3000) @ ''/''"
  define w1 where "w1 = w\<lparr>now := now w + 3000, trace := trace w @ [Slept 3000]\<rparr>"
  define F where "F = \<lparr>pr_success = False, pr_vocalTrack = None, pr_instrumentalTrack = None,
                   pr_error = Some ''Failed to process audio on device.''\<rparr>"
  define R where "R = \<lparr>pr_success = True, pr_vocalTrack = Some (t @ ''vocals.mp3''),
                   pr_instrumentalTrack = Some (t @ ''instrumental.mp3''), pr_error = None\<rparr>"
  have os1: "os w1 \<noteq> Web" using assms by (simp add: w1_def)
  have p: "files w1 = files w" "dirs w1 = dirs w" "cacheDirectory w1 = cacheDirectory w"
    "now w1 = now w + 3000" "refuses w1 = refuses w"
    by (simp_all add: w1_def)
  note ct = createTempDirectory_native_eq[OF os1, unfolded p, folded t_def]
  have s: "sleep 3000 w = (Inr (), w1)" by (simp add: sleep_def w1_def)
  note ev = nativeProcessAudio_def try_catch_def bindE_def s returnE_def copyAsync_def
    consoleError_def emit_def Let_def
  consider (info) "refuses w (OpInfo t)"
    | (mkdir) "\<not> refuses w (OpInfo t)" "files w t = None" "t \<notin> dirs w" "refuses w (OpMkdir t)"
    | (dir) "\<not> refuses w (OpInfo t)"
        "files w t \<noteq> None \<or> t \<in> dirs w \<or> \<not> refuses w (OpMkdir t)"
    by blast
  then have "fst (nativeProcessAudio uri w) =
     (if \<not> refuses w (OpInfo t) \<and>
            (files w t \<noteq> None \<or> t \<in> dirs w \<or> \<not> refuses w (OpMkdir t)) \<and>
            files w uri \<noteq> None \<and>
            \<not> refuses w (OpCopy uri (t @ ''vocals.mp3'')) \<and>
            \<not> refuses w (OpCopy uri (t @ ''instrumental.mp3''))
         then Inr R else Inr F)"
  proof cases
    case info
    with ct have "createTempDirectory w1 =
        (Inl (Thrown ''getInfoAsync''),
         w1\<lparr>trace := trace w1 @ [Logged ''Error creating temp directory:'']\<rparr>)"
      by simp
    with info show ?thesis by (simp add: ev F_def)
  next
    case mkdir
    with ct have "createTempDirectory w1 =
        (Inl (Thrown ''makeDirectoryAsync''),
         w1\<lparr>trace := trace w1 @ [Logged ''Error creating temp directory:'']\<rparr>)"
      by simp
    with mkdir show ?thesis by (simp add: ev F_def)
  next
    case dir
    then obtain w2 where c: "createTempDirectory w1 = (Inr t, w2)"
      and f: "files w2 = files w" "refuses w2 = refuses w"
      unfolding ct using p by (cases "files w t \<noteq> None \<or> t \<in> dirs w") auto
    show ?thesis
      using dir c
      by (cases "files w uri") (simp_all add: ev f R_def F_def)
  qed
  then show ?thesis
    by (simp add: Let_def t_def R_def F_def)
qed

text \<open>
  C4. \<open>processingAudio\<close> and \<open>mergeAudioTracks\<close> never reject: from every host state
  and for every argument the promise resolves to a result record. The record has
  \<open>success: true\<close> exactly when no internal call failed (always on web; on native
  when every file-system call of the body went through), and in every other case it is
  the record with \<open>success: false\<close> and the function's fixed, non-empty error message:
  every internal failure is caught and handed back in the record.
\<close>

theorem processing_and_merge_never_reject:
  "(\<exists>r w'. processingAudio audioUri w = (Inr r, w') \<and>
      (pr_success r \<longleftrightarrow>
         os w = Web \<or>
         (let tempDir = cacheDirectory w @ ''temp_'' @ decimal (now w + 3000) @ ''/''
          in \<not> refuses w (OpInfo tempDir) \<and>
             (files w tempDir \<noteq> None \<or> tempDir \<in> dirs w \<or> \<not> refuses w (OpMkdir tempDir)) \<and>
             files w audioUri \<noteq> None \<and>
             \<not> refuses w (OpCopy audioUri (tempDir @ ''vocals.mp3'')) \<and>
             \<not> refuses w (OpCopy audioUri (tempDir @ ''instrumental.mp3'')))) \<and>
      (\<not> pr_success r \<longrightarrow>
         r = \<lparr>pr_success = False, pr_vocalTrack = None, pr_instrumentalTrack = None,
              pr_error = Some ''Failed to process audio on device.''\<rparr> \<and>
         (\<exists>msg. pr_error r = Some msg \<and> msg \<noteq> []))) \<and>
   (\<exists>r w'. mergeAudioTracks vocalUri instrumentalUri vocalVolume instrumentalVolume w = (Inr r, w') \<and>
      (mr_success r \<longleftrightarrow>
         os w = Web \<or>
         (files w vocalUri \<noteq> None \<and>
          \<not> refuses w (OpCopy vocalUri
                (cacheDirectory w @ ''mixed_'' @ decimal (now w + 2000) @ ''.mp3'')))) \<and>
      (\<not> mr_success r \<longrightarrow>
         r = \<lparr>mr_success = False, mr_outputUri = None,
              mr_error = Some ''Failed to merge audio tracks on device.''\<rparr> \<and>
         (\<exists>msg. mr_error r = Some msg \<and> msg \<noteq> [])))"
proof
  show "\<exists>r w'. processingAudio audioUri w = (Inr r, w') \<and>
      (pr_success r \<longleftrightarrow>
         os w = Web \<or>
         (let tempDir = cacheDirectory w @ ''temp_'' @ decimal (now w + 3000) @ ''/''
          in \<not> refuses w (OpInfo tempDir) \<and>
             (files w tempDir \<noteq> None \<or> tempDir \<in> dirs w \<or> \<not> refuses w (OpMkdir tempDir)) \<and>
             files w audioUri \<noteq> None \<and>
             \<not> refuses w (OpCopy audioUri (tempDir @ ''vocals.mp3'')) \<and>
             \<not> refuses w (OpCopy audioUri (tempDir @ ''instrumental.mp3'')))) \<and>
      (\<not> pr_success r \<longrightarrow>
         r = \<lparr>pr_success = False, pr_vocalTrack = None, pr_instrumentalTrack = None,
              pr_error = Some ''Failed to process audio on device.''\<rparr> \<and>
         (\<exists>msg. pr_error r = Some msg \<and> msg \<noteq> []))"
  proof (cases "os w = Web")
    case True
    then show ?thesis by (simp add: processingAudio_def webProcessAudio_eq)
  next
    case False
    obtain x w' where n: "nativeProcessAudio audioUri w = (x, w')"
      by (cases "nativeProcessAudio audioUri w")
    with nativeProcessAudio_result[OF False, of audioUri] False show ?thesis
      by (auto simp add: processingAudio_def Let_def split: if_splits)
  qed
  show "\<exists>r w'. mergeAudioTracks vocalUri instrumentalUri vocalVolume instrumentalVolume w = (Inr r, w') \<and>
      (mr_success r \<longleftrightarrow>
         os w = Web \<or>
         (files w vocalUri \<noteq> None \<and>
          \<not> refuses w (OpCopy vocalUri
                (cacheDirectory w @ ''mixed_'' @ decimal (now w + 2000) @ ''.mp3'')))) \<and>
      (\<not> mr_success r \<longrightarrow>
         r = \<lparr>mr_success = False, mr_outputUri = None,
              mr_error = Some ''Failed to merge audio tracks on device.''\<rparr> \<and>
         (\<exists>msg. mr_error r = Some msg \<and> msg \<noteq> []))"
    by (cases "os w = Web")
      (auto simp add: mergeAudioTracks_def webMergeAudio_eq nativeMergeAudio_eq Let_def
        split: option.splits)
qed

theorem processing_and_merge_never_reject_witness:
  "os device \<noteq> Web \<and> files device ''/in/missing.mp3'' = None \<and>
   fst (processingAudio ''/in/missing.mp3'' device) =
     Inr \<lparr>pr_success = False, pr_vocalTrack = None, pr_instrumentalTrack = None,
          pr_error = Some ''Failed to process audio on device.''\<rparr> \<and>
   fst (mergeAudioTracks ''/in/missing.mp3'' ''/in/song.mp3'' 1 1 device) =
     Inr \<lparr>mr_success = False, mr_outputUri = None,
          mr_error = Some ''Failed to merge audio tracks on device.''\<rparr>"
proof -
  have f: "os device \<noteq> Web" "files device ''/in/missing.mp3'' = None"
    by (simp_all add: device_def)
  from processing_and_merge_never_reject[of "''/in/missing.mp3''" device "''/in/missing.mp3''"
      "''/in/song.mp3''" 1 1]
  obtain r w1 q w2 where
    p: "processingAudio ''/in/missing.mp3'' device = (Inr r, w1)"
      "pr_success r \<longleftrightarrow>
         os device = Web \<or>
         (let tempDir = cacheDirectory device @ ''temp_'' @ decimal (now device + 3000) @ ''/''
          in \<not> refuses device (OpInfo tempDir) \<and>
             (files device tempDir \<noteq> None \<or> tempDir \<in> dirs device \<or>
              \<not> refuses device (OpMkdir tempDir)) \<and>
             files device ''/in/missing.mp3'' \<noteq> None \<and>
             \<not> refuses device (OpCopy ''/in/missing.mp3'' (tempDir @ ''vocals.mp3'')) \<and>
             \<not> refuses device (OpCopy ''/in/missing.mp3'' (tempDir @ ''instrumental.mp3'')))"
      "\<not> pr_success r \<longrightarrow>
         r = \<lparr>pr_success = False, pr_vocalTrack = None, pr_instrumentalTrack = None,
              pr_error = Some ''Failed to process audio on device.''\<rparr> \<and>
         (\<exists>msg. pr_error r = Some msg \<and> msg \<noteq> [])" and
    m: "mergeAudioTracks ''/in/missing.mp3'' ''/in/song.mp3'' 1 1 device = (Inr q, w2)"
      "mr_success q \<longleftrightarrow>
         os device = Web \<or>
         (files device ''/in/missing.mp3'' \<noteq> None \<and>
          \<not> refuses device (OpCopy ''/in/missing.mp3''
                (cacheDirectory device @ ''mixed_'' @ decimal (now device + 2000) @ ''.mp3'')))"
      "\<not> mr_success q \<longrightarrow>
         q = \<lparr>mr_success = False, mr_outputUri = None,
              mr_error = Some ''Failed to merge audio tracks on device.''\<rparr> \<and>
         (\<exists>msg. mr_error q = Some msg \<and> msg \<noteq> [])"
    by blast
  from p(2) f have "\<not> pr_success r" by (simp add: Let_def)
  with p(1,3) have 1: "fst (processingAudio ''/in/missing.mp3'' device) =
     Inr \<lparr>pr_success = False, pr_vocalTrack = None, pr_instrumentalTrack = None,
          pr_error = Some ''Failed to process audio on device.''\<rparr>"
    by simp
  from m(2) f have "\<not> mr_success q" by simp
  with m(1,3) have 2: "fst (mergeAudioTracks ''/in/missing.mp3'' ''/in/song.mp3'' 1 1 device) =
     Inr \<lparr>mr_success = False, mr_outputUri = None,
          mr_error = Some ''Failed to merge audio tracks on device.''\<rparr>"
    by simp
  from f 1 2 show ?thesis by simp
qed

section \<open>Properties of the file cache\<close>







section \<open>Properties of the screens\<close>

lemmas screen_defs = host_def setState_def

lemma quiet_bindE: "quiet m \<Longrightarrow> (\<And>x. quiet (f x)) \<Longrightarrow> quiet (bindE m f)"
  unfolding quiet_def bindE_def
  by (auto split: prod.splits sum.splits) (metis snd_conv)+

lemma quiet_try_catch: "quiet m \<Longrightarrow> (\<And>e. quiet (h e)) \<Longrightarrow> quiet (try_catch m h)"
  unfolding quiet_def try_catch_def
  by (auto split: prod.splits sum.splits) (metis snd_conv)+

lemma quiet_basic:
  "quiet (returnE x)" "quiet (throwE e)" "quiet (sleep ms)" "quiet (consoleError label)"
  "quiet (getInfoAsync p)" "quiet (deleteAsync p)" "quiet (copyAsync from to)"
  "quiet (makeDirectoryAsync p)"
  by (simp_all add: quiet_def eio_defs fs_defs is_alert_def split: option.splits)

lemma quiet_if: "quiet a \<Longrightarrow> quiet b \<Longrightarrow> quiet (if c then a else b)"
  by simp

lemma quiet_createTempDirectory: "quiet createTempDirectory"
  unfolding quiet_def
proof
  fix w
  have body: "quiet (try_catch
           (bindE (getInfoAsync tempDir) (\<lambda>exists.
            bindE (if \<not> exists then makeDirectoryAsync tempDir else returnE ()) (\<lambda>_.
            returnE tempDir)))
           (\<lambda>err. bindE (consoleError ''Error creating temp directory:'') (\<lambda>_. throwE err)))"
    for tempDir
    by (intro quiet_try_catch quiet_bindE quiet_if quiet_basic)
  show "filter is_alert (trace (snd (createTempDirectory w))) = filter is_alert (trace w)"
  proof (cases "os w = Web")
    case True
    then show ?thesis by (simp add: createTempDirectory_def returnE_def)
  next
    case False
    then show ?thesis
      using body[unfolded quiet_def, rule_format, of _ w]
      by (simp only: createTempDirectory_def Let_def if_False)
  qed
qed

lemma quiet_nativeProcessAudio: "quiet (nativeProcessAudio uri)"
  unfolding nativeProcessAudio_def Let_def
  by (intro quiet_try_catch quiet_bindE quiet_basic quiet_createTempDirectory)

lemma quiet_processingAudio: "quiet (processingAudio uri)"
  unfolding quiet_def
proof
  fix w
  show "filter is_alert (trace (snd (processingAudio uri w))) = filter is_alert (trace w)"
  proof (cases "os w = Web")
    case True
    then show ?thesis by (simp add: processingAudio_def webProcessAudio_eq is_alert_def)
  next
    case False
    with quiet_nativeProcessAudio[of uri] show ?thesis
      by (simp add: processingAudio_def quiet_def)
  qed
qed

lemma stopSound_eq:
  "\<exists>evs. stopSound sound label (u, w) = (Inr (), (u, w\<lparr>trace := trace w @ evs\<rparr>)) \<and>
         filter is_alert evs = []"
proof (cases sound)
  case None
  have "w\<lparr>trace := trace w @ []\<rparr> = w" by simp
  with None show ?thesis
    by (intro exI[of _ "[]"]) (simp add: stopSound_def returnE_def)
next
  case (Some h)
  consider (a) "refuses w (OpStop h)" | (b) "\<not> refuses w (OpStop h)" "refuses w (OpSeek h)"
    | (c) "\<not> refuses w (OpStop h)" "\<not> refuses w (OpSeek h)" by blast
  then show ?thesis
  proof cases
    case a
    with Some show ?thesis
      by (intro exI[of _ "[Logged label]"])
        (simp add: stopSound_def eio_defs screen_defs stopAsync_def setPositionAsync_def is_alert_def)
  next
    case b
    with Some show ?thesis
      by (intro exI[of _ "[Stopped h, Logged label]"])
        (simp add: stopSound_def eio_defs screen_defs stopAsync_def setPositionAsync_def is_alert_def)
  next
    case c
    with Some show ?thesis
      by (intro exI[of _ "[Stopped h, Seeked h]"])
        (simp add: stopSound_def eio_defs screen_defs stopAsync_def setPositionAsync_def is_alert_def)
  qed
qed

lemma stopAllPlayback_eq:
  "\<exists>evs. stopAllPlayback r (u, w) =
           (Inr (), (u\<lparr>ed_isPlaying := False, ed_position := 0\<rparr>, w\<lparr>trace := trace w @ evs\<rparr>)) \<and>
         filter is_alert evs = []"
proof -
  let ?u = "u\<lparr>ed_isPlaying := False\<rparr>"
  obtain e1 where 1: "stopSound (ed_originalSound r) ''Failed to stop original sound'' (?u, w) =
      (Inr (), (?u, w\<lparr>trace := trace w @ e1\<rparr>))" "filter is_alert e1 = []"
    using stopSound_eq by blast
  obtain e2 where 2: "stopSound (ed_vocalSound r) ''Failed to stop vocal sound''
        (?u, w\<lparr>trace := trace w @ e1\<rparr>) =
      (Inr (), (?u, w\<lparr>trace := trace w @ e1\<rparr>\<lparr>trace := trace (w\<lparr>trace := trace w @ e1\<rparr>) @ e2\<rparr>))"
      "filter is_alert e2 = []"
    using stopSound_eq by blast
  obtain e3 where 3: "stopSound (ed_instrumentalSound r) ''Failed to stop instrumental sound''
        (?u, w\<lparr>trace := trace w @ e1 @ e2\<rparr>) =
      (Inr (), (?u, w\<lparr>trace := trace w @ e1 @ e2\<rparr>\<lparr>trace := trace (w\<lparr>trace := trace w @ e1 @ e2\<rparr>) @ e3\<rparr>))"
      "filter is_alert e3 = []"
    using stopSound_eq by blast
  have "stopAllPlayback r (u, w) =
           (Inr (), (u\<lparr>ed_isPlaying := False, ed_position := 0\<rparr>, w\<lparr>trace := trace w @ (e1 @ e2 @ e3)\<rparr>))"
    using 1(1) 2(1) 3(1) by (simp add: stopAllPlayback_def bindE_def setState_def)
  moreover have "filter is_alert (e1 @ e2 @ e3) = []" using 1(2) 2(2) 3(2) by simp
  ultimately show ?thesis by blast
qed

text \<open>
  C5. When \<open>processingAudio\<close> returns \<open>success: false\<close> or rejects, the Editor
  screen's \<open>processAudio\<close> resolves with \<open>vocalTrack\<close>, \<open>instrumentalTrack\<close>,
  \<open>isProcessed\<close> and \<open>playbackMode\<close> as they were and \<open>isProcessing\<close> reset to
  false. After the processing call it only shows one alert (after a console line when
  the call rejected): no second call is made. Stopping playback shows no alert, so
  with a processing function that shows none, exactly one alert is shown in all.
\<close>

theorem processAudio_failure_leaves_tracks:
  assumes "\<not> falsy (ed_audioUri r)"
    and "stopped = snd (snd (stopAllPlayback r (u\<lparr>ed_isProcessing := True\<rparr>, w)))"
    and "processing (or_else (ed_audioUri r) []) stopped = (res, after)"
    and "\<forall>result. res = Inr result \<longrightarrow> \<not> pr_success result"
  shows "\<exists>u' w'. processAudio_with processing r (u, w) = (Inr (), (u', w')) \<and>
           ed_vocalTrack u' = ed_vocalTrack u \<and>
           ed_instrumentalTrack u' = ed_instrumentalTrack u \<and>
           ed_isProcessed u' = ed_isProcessed u \<and>
           ed_playbackMode u' = ed_playbackMode u \<and>
           ed_isProcessing u' = False \<and>
           filter is_alert (trace stopped) = filter is_alert (trace w) \<and>
           w' = after\<lparr>trace := trace after @
                  (case res of
                     Inl err \<Rightarrow> [Logged ''Failed to process audio'',
                                 Alerted ''Error'' ''Failed to process audio. Please try again.'']
                   | Inr result \<Rightarrow> [Alerted ''Processing Failed''
                                      (or_else (pr_error result) ''Failed to process audio.'')])\<rparr> \<and>
           (quiet (processing (or_else (ed_audioUri r) [])) \<longrightarrow>
              length (filter is_alert (trace w')) = Suc (length (filter is_alert (trace w))))"
proof -
  let ?u = "u\<lparr>ed_isProcessing := True\<rparr>"
  obtain evs where st: "stopAllPlayback r (?u, w) =
      (Inr (), (?u\<lparr>ed_isPlaying := False, ed_position := 0\<rparr>, w\<lparr>trace := trace w @ evs\<rparr>))"
      and na: "filter is_alert evs = []"
    using stopAllPlayback_eq by blast
  have stopped: "stopped = w\<lparr>trace := trace w @ evs\<rparr>" using assms(2) st by simp
  have pr: "processing (or_else (ed_audioUri r) []) (w\<lparr>trace := trace w @ evs\<rparr>) = (res, after)"
    using assms(3) stopped by simp
  have q: "filter is_alert (trace after) = filter is_alert (trace w)"
    if "quiet (processing (or_else (ed_audioUri r) []))"
    using that[unfolded quiet_def, rule_format, of "w\<lparr>trace := trace w @ evs\<rparr>"] pr na
    by simp
  show ?thesis
  proof (cases res)
    case (Inl err)
    then show ?thesis using assms(1) st pr na stopped q
      by (simp add: processAudio_with_def eio_defs screen_defs is_alert_def)
  next
    case (Inr result)
    with assms(4) have "\<not> pr_success result" by simp
    with Inr show ?thesis using assms(1) st pr na stopped q
      by (simp add: processAudio_with_def eio_defs screen_defs is_alert_def)
  qed
qed

theorem processAudio_failure_leaves_tracks_witness:
  "\<not> falsy (ed_audioUri editor0) \<and>
   processAudio editor0 (editor0, device) =
     (Inr (),
      (editor0,
       device\<lparr>now := 3041, dirs := {''/cache/temp_3041/'', ''/cache/''},
         trace := [Slept 3000, MadeDir ''/cache/temp_3041/'',
                   Logged ''Native audio processing error:'',
                   Alerted ''Processing Failed'' ''Failed to process audio on device.'']\<rparr>)) \<and>
   quiet (processingAudio ''/in/missing.mp3'') \<and>
   length (filter is_alert (trace (snd (snd (processAudio editor0 (editor0, device)))))) = 1 \<and>
   processAudio_with (\<lambda>uri. throwE (Thrown ''rejected'')) editor0 (editor0, device) =
     (Inr (),
      (editor0,
       device\<lparr>trace := [Logged ''Failed to process audio'',
                         Alerted ''Error'' ''Failed to process audio. Please try again.'']\<rparr>))"
proof -
  have h1: "\<not> falsy (ed_audioUri editor0)" by (simp add: editor0_def falsy_def)
  have h2: "device = snd (snd (stopAllPlayback editor0 (editor0\<lparr>ed_isProcessing := True\<rparr>, device)))"
    by (simp add: stopAllPlayback_def stopSound_def editor0_def eio_defs screen_defs)
  define failure where
    "failure = \<lparr>pr_success = False, pr_vocalTrack = None, pr_instrumentalTrack = None,
                 pr_error = Some ''Failed to process audio on device.''\<rparr>"
  define w2 where
    "w2 = device\<lparr>now := 3041, dirs := {''/cache/temp_3041/'', ''/cache/''},
            trace := [Slept 3000, MadeDir ''/cache/temp_3041/'',
                      Logged ''Native audio processing error:'']\<rparr>"
  have d: "decimal 3041 = ''3041''" by (simp add: decimal.simps)
  have h3: "processingAudio (or_else (ed_audioUri editor0) []) device = (Inr failure, w2)"
    by (simp add: processingAudio_def nativeProcessAudio_def createTempDirectory_def Let_def
        eio_defs fs_defs device_def editor0_def or_else_def failure_def w2_def d)
  have h4: "\<forall>result. (Inr failure :: exn + ProcessingResult) = Inr result \<longrightarrow> \<not> pr_success result"
    by (simp add: failure_def)
  have h3': "(\<lambda>uri. throwE (Thrown ''rejected'')) (or_else (ed_audioUri editor0) []) device =
             (Inl (Thrown ''rejected'') :: exn + ProcessingResult, device)"
    by (simp add: throwE_def)
  have h4': "\<forall>result. (Inl (Thrown ''rejected'') :: exn + ProcessingResult) = Inr result \<longrightarrow>
               \<not> pr_success result"
    by simp
  have e: "editor0\<lparr>ed_isProcessing := False\<rparr> = editor0"
    "ed_isPlaying editor0 = False" "ed_position editor0 = 0" "ed_isProcessing editor0 = False"
    by (simp_all add: editor0_def)
  from processAudio_failure_leaves_tracks[where r = editor0 and u = editor0 and w = device
      and stopped = device and processing = processingAudio and res = "Inr failure"
      and after = w2, OF h1 h2 h3 h4]
  obtain u' w' where a: "processAudio editor0 (editor0, device) = (Inr (), (u', w'))"
    "w' = w2\<lparr>trace := trace w2 @ [Alerted ''Processing Failed''
              (or_else (pr_error failure) ''Failed to process audio.'')]\<rparr>"
    "quiet (processingAudio (or_else (ed_audioUri editor0) [])) \<longrightarrow>
       length (filter is_alert (trace w')) = Suc (length (filter is_alert (trace device)))"
    by (auto simp: processAudio_def)
  have qp: "quiet (processingAudio ''/in/missing.mp3'')" by (rule quiet_processingAudio)
  have one: "length (filter is_alert (trace (snd (snd (processAudio editor0 (editor0, device)))))) = 1"
    using a(1,3) qp by (simp add: editor0_def or_else_def device_def)
  from processAudio_failure_leaves_tracks[where r = editor0 and u = editor0 and w = device
      and stopped = device and processing = "\<lambda>uri. throwE (Thrown ''rejected'')"
      and res = "Inl (Thrown ''rejected'')" and after = device, OF h1 h2 h3' h4']
  obtain u'' w'' where b:
    "processAudio_with (\<lambda>uri. throwE (Thrown ''rejected'')) editor0 (editor0, device) = (Inr (), (u'', w''))"
    "w'' = device\<lparr>trace := trace device @ [Logged ''Failed to process audio'',
              Alerted ''Error'' ''Failed to process audio. Please try again.'']\<rparr>"
    by auto
  have ua: "u' = editor0"
    using a(1) h3
    by (simp add: processAudio_def processAudio_with_def stopAllPlayback_def stopSound_def
        eio_defs screen_defs falsy_def editor0_def failure_def)
  have ub: "u'' = editor0"
    using b(1)
    by (simp add: processAudio_with_def stopAllPlayback_def stopSound_def
        eio_defs screen_defs falsy_def editor0_def)
  show ?thesis
    using h1 a(1,2) b ua ub qp one
    by (simp add: w2_def failure_def or_else_def device_def)
qed

text \<open>
  C7. When \<open>vocalTrack\<close> or \<open>instrumentalTrack\<close> is missing, the Export screen's
  \<open>exportAudio\<close> only shows an alert: whatever the merge function is, it is not
  called, and the component state, \<open>exportedUri\<close> included, is as before. When the
  merge returns \<open>success: false\<close>, \<open>exportedUri\<close> is as before, \<open>isMerging\<close> is reset,
  and after the one merge call only one alert is shown: there is no retry.
\<close>

theorem exportAudio_failure_leaves_exportedUri:
  "(falsy (ex_vocalTrack r) \<or> falsy (ex_instrumentalTrack r) \<longrightarrow>
      exportAudio_with merge r (u, w) =
        (Inr (), (u, w\<lparr>trace := trace w @
           [Alerted ''Error'' ''Missing audio tracks. Please go back to the editor.'']\<rparr>))) \<and>
   (\<not> falsy (ex_vocalTrack r) \<and> \<not> falsy (ex_instrumentalTrack r) \<and>
    merge (or_else (ex_vocalTrack r) []) (or_else (ex_instrumentalTrack r) [])
      (ex_vocalVol r) (ex_instrumentalVol r) w = (Inr result, w') \<and>
    \<not> mr_success result \<longrightarrow>
      exportAudio_with merge r (u, w) =
        (Inr (), (u\<lparr>ex_isMerging := False\<rparr>,
                  w'\<lparr>trace := trace w' @
                    [Alerted ''Export Failed''
                       (or_else (mr_error result) ''Failed to export audio.'')]\<rparr>)))"
  by (simp add: exportAudio_with_def eio_defs screen_defs)

theorem exportAudio_failure_leaves_exportedUri_witness:
  "falsy (ex_vocalTrack (export0\<lparr>ex_vocalTrack := None\<rparr>)) \<and>
   exportAudio (export0\<lparr>ex_vocalTrack := None\<rparr>) (export0\<lparr>ex_vocalTrack := None\<rparr>, device) =
     (Inr (), (export0\<lparr>ex_vocalTrack := None\<rparr>,
               device\<lparr>trace := [Alerted ''Error''
                 ''Missing audio tracks. Please go back to the editor.'']\<rparr>)) \<and>
   \<not> falsy (ex_vocalTrack export0) \<and> \<not> falsy (ex_instrumentalTrack export0) \<and>
   exportAudio export0 (export0, device) =
     (Inr (), (export0,
               device\<lparr>now := 2041,
                 trace := [Slept 2000, Logged ''Native audio merging error:'',
                           Alerted ''Export Failed'' ''Failed to merge audio tracks on device.'']\<rparr>))"
proof -
  define failure where
    "failure = \<lparr>mr_success = False, mr_outputUri = None,
                 mr_error = Some ''Failed to merge audio tracks on device.''\<rparr>"
  define w2 where
    "w2 = device\<lparr>now := 2041, trace := [Slept 2000, Logged ''Native audio merging error:'']\<rparr>"
  have f: "falsy (ex_vocalTrack (export0\<lparr>ex_vocalTrack := None\<rparr>))"
    "\<not> falsy (ex_vocalTrack export0)" "\<not> falsy (ex_instrumentalTrack export0)"
    by (simp_all add: falsy_def export0_def)
  have m: "mergeAudioTracks (or_else (ex_vocalTrack export0) [])
      (or_else (ex_instrumentalTrack export0) []) (ex_vocalVol export0)
      (ex_instrumentalVol export0) device = (Inr failure, w2)"
    by (simp add: mergeAudioTracks_def nativeMergeAudio_eq Let_def or_else_def export0_def
        device_def failure_def w2_def)
  have nf: "\<not> mr_success failure" by (simp add: failure_def)
  have e: "export0\<lparr>ex_isMerging := False\<rparr> = export0" by (simp add: export0_def)
  from exportAudio_failure_leaves_exportedUri[where r = "export0\<lparr>ex_vocalTrack := None\<rparr>"
      and merge = mergeAudioTracks and u = "export0\<lparr>ex_vocalTrack := None\<rparr>" and w = device] f(1)
  have 1: "exportAudio (export0\<lparr>ex_vocalTrack := None\<rparr>) (export0\<lparr>ex_vocalTrack := None\<rparr>, device) =
     (Inr (), (export0\<lparr>ex_vocalTrack := None\<rparr>,
               device\<lparr>trace := [Alerted ''Error''
                 ''Missing audio tracks. Please go back to the editor.'']\<rparr>))"
    by (simp add: exportAudio_def device_def)
  from exportAudio_failure_leaves_exportedUri[where r = export0 and merge = mergeAudioTracks
      and u = export0 and w = device and result = failure and w' = w2]
    f(2,3) m nf
  have 2: "exportAudio export0 (export0, device) =
     (Inr (), (export0,
               device\<lparr>now := 2041,
                 trace := [Slept 2000, Logged ''Native audio merging error:'',
                           Alerted ''Export Failed'' ''Failed to merge audio tracks on device.'']\<rparr>))"
    by (simp add: exportAudio_def e w2_def failure_def or_else_def)
  from f 1 2 show ?thesis by simp
qed

text \<open>
  C10, as the code has it. When \<open>pickAudio\<close> rejects a picked asset because its size
  exceeds \<open>50 * 1024 * 1024\<close> bytes, it returns after one alert with \<open>audioUri\<close>
  unchanged and \<open>fileName\<close> overwritten with the rejected asset's name. A sound that
  was loaded has by then been unloaded and cleared (\<open>sound\<close> is null and \<open>isPlaying\<close>
  false); only when no sound was loaded is the sound state unchanged.
\<close>

theorem pickAudio_too_large:
  assumes "picker w = Inr result" and "\<not> canceled result" and "assets result = asset # rest"
    and "too_large asset"
    and "\<forall>sound. up_sound r = Some sound \<longrightarrow> \<not> refuses w (OpUnload sound)"
  shows "pickAudio r (u, w) =
           (Inr (),
            ((case up_sound r of None \<Rightarrow> u
              | Some sound \<Rightarrow> u\<lparr>up_sound := None, up_isPlaying := False\<rparr>)
               \<lparr>up_fileName := Some (asset_name asset)\<rparr>,
             w\<lparr>trace := trace w @
                 (case up_sound r of None \<Rightarrow> [] | Some sound \<Rightarrow> [Unloaded sound]) @
                 [Alerted ''File too large'' ''Please select an audio file smaller than 50MB'']\<rparr>)) \<and>
         up_audioUri (fst (snd (pickAudio r (u, w)))) = up_audioUri u \<and>
         up_fileName (fst (snd (pickAudio r (u, w)))) = Some (asset_name asset) \<and>
         up_sound (fst (snd (pickAudio r (u, w)))) =
           (if up_sound r = None then up_sound u else None) \<and>
         up_isPlaying (fst (snd (pickAudio r (u, w)))) =
           (if up_sound r = None then up_isPlaying u else False)"
proof -
  have eq: "pickAudio r (u, w) =
           (Inr (),
            ((case up_sound r of None \<Rightarrow> u
              | Some sound \<Rightarrow> u\<lparr>up_sound := None, up_isPlaying := False\<rparr>)
               \<lparr>up_fileName := Some (asset_name asset)\<rparr>,
             w\<lparr>trace := trace w @
                 (case up_sound r of None \<Rightarrow> [] | Some sound \<Rightarrow> [Unloaded sound]) @
                 [Alerted ''File too large'' ''Please select an audio file smaller than 50MB'']\<rparr>))"
  proof (cases "up_sound r")
    case None
    with assms(1-4) show ?thesis
      by (simp add: pickAudio_def getDocumentAsync_def eio_defs screen_defs)
  next
    case (Some sound)
    with assms(5) have "\<not> refuses w (OpUnload sound)" by simp
    with Some assms(1-4) show ?thesis
      by (simp add: pickAudio_def getDocumentAsync_def unloadAsync_def eio_defs screen_defs)
  qed
  show ?thesis
    unfolding eq by (simp split: option.splits)
qed

theorem pickAudio_too_large_witness:
  "picker picking = Inr \<lparr>canceled = False, assets = [big]\<rparr> \<and> too_large big \<and>
   \<not> refuses picking (OpUnload 0) \<and>
   pickAudio upload0 (upload0, picking) =
     (Inr (),
      (upload0\<lparr>up_sound := None, up_isPlaying := False, up_fileName := Some ''big.wav''\<rparr>,
       picking\<lparr>trace := [Unloaded 0,
         Alerted ''File too large'' ''Please select an audio file smaller than 50MB'']\<rparr>)) \<and>
   pickAudio (upload0\<lparr>up_sound := None\<rparr>) (upload0\<lparr>up_sound := None\<rparr>, picking) =
     (Inr (),
      (upload0\<lparr>up_sound := None, up_fileName := Some ''big.wav''\<rparr>,
       picking\<lparr>trace := [
         Alerted ''File too large'' ''Please select an audio file smaller than 50MB'']\<rparr>))"
proof -
  have h1: "picker picking = Inr \<lparr>canceled = False, assets = [big]\<rparr>"
    by (simp add: picking_def)
  have h2: "\<not> canceled \<lparr>canceled = False, assets = [big]\<rparr>" by simp
  have h3: "assets \<lparr>canceled = False, assets = [big]\<rparr> = big # []" by simp
  have h4: "too_large big" by (simp add: too_large_def big_def)
  have h5: "\<forall>sound. up_sound upload0 = Some sound \<longrightarrow> \<not> refuses picking (OpUnload sound)"
    by (simp add: picking_def device_def)
  have h5': "\<forall>sound. up_sound (upload0\<lparr>up_sound := None\<rparr>) = Some sound \<longrightarrow>
               \<not> refuses picking (OpUnload sound)"
    by simp
  have f: "up_sound upload0 = Some 0" "asset_name big = ''big.wav''" "trace picking = []"
    "\<not> refuses picking (OpUnload 0)"
    by (simp_all add: upload0_def big_def picking_def device_def)
  from pickAudio_too_large[OF h1 h2 h3 h4 h5, of upload0]
    pickAudio_too_large[OF h1 h2 h3 h4 h5', of "upload0\<lparr>up_sound := None\<rparr>"]
  show ?thesis using h1 h4 by (simp add: f)
qed

text \<open>
  A rejected oversized pick does change the loaded sound: the sound that was loaded
  and playing is unloaded and cleared.
\<close>

theorem pickAudio_too_large_unloads_sound:
  "too_large big \<and> up_sound upload0 = Some 0 \<and> up_isPlaying upload0 \<and>
   up_sound (fst (snd (pickAudio upload0 (upload0, picking)))) = None \<and>
   \<not> up_isPlaying (fst (snd (pickAudio upload0 (upload0, picking)))) \<and>
   trace (snd (snd (pickAudio upload0 (upload0, picking)))) =
     [Unloaded 0, Alerted ''File too large'' ''Please select an audio file smaller than 50MB'']"
  by (simp add: pickAudio_def getDocumentAsync_def unloadAsync_def eio_defs screen_defs
      too_large_def big_def upload0_def picking_def device_def)

section \<open>Properties of the components\<close>

lemma bars_loop_length:
  "i \<le> BAR_COUNT \<Longrightarrow> length (bars_loop random i heights) = length heights + (BAR_COUNT - i)"
proof (induction random i heights rule: bars_loop.induct)
  case (1 random i heights)
  show ?case
  proof (cases "i < BAR_COUNT")
    case True
    with "1.IH" show ?thesis
      by (subst bars_loop.simps) (simp add: Let_def)
  next
    case False
    with "1.prems" show ?thesis
      by (subst bars_loop.simps) simp
  qed
qed

lemma bar_height_bounds:
  assumes "0 \<le> r" "r < 1"
  shows "5 \<le> max 5 (MAX_BAR_HEIGHT * (0.1 + r * 0.9) * sin x)"
    and "max 5 (MAX_BAR_HEIGHT * (0.1 + r * 0.9) * sin x) \<le> MAX_BAR_HEIGHT"
proof -
  show "5 \<le> max 5 (MAX_BAR_HEIGHT * (0.1 + r * 0.9) * sin x)" by simp
  have rv: "0 \<le> 0.1 + r * 0.9" "0.1 + r * 0.9 \<le> 1" using assms by simp_all
  have "(0.1 + r * 0.9) * sin x \<le> (0.1 + r * 0.9) * 1"
    using rv(1) by (intro mult_left_mono) simp_all
  with rv(2) have le: "(0.1 + r * 0.9) * sin x \<le> 1" by simp
  have "MAX_BAR_HEIGHT * (0.1 + r * 0.9) * sin x = 80 * ((0.1 + r * 0.9) * sin x)"
    by (simp only: MAX_BAR_HEIGHT_def mult.assoc)
  also have "\<dots> \<le> 80" using le by linarith
  finally show "max 5 (MAX_BAR_HEIGHT * (0.1 + r * 0.9) * sin x) \<le> MAX_BAR_HEIGHT"
    by (simp add: MAX_BAR_HEIGHT_def)
qed

lemma bars_loop_bounds:
  assumes "\<forall>i. 0 \<le> random i \<and> random i < 1"
    and "\<forall>h \<in> set heights. 5 \<le> h \<and> h \<le> MAX_BAR_HEIGHT"
  shows "\<forall>h \<in> set (bars_loop random i heights). 5 \<le> h \<and> h \<le> MAX_BAR_HEIGHT"
  using assms
proof (induction random i heights rule: bars_loop.induct)
  case (1 random i heights)
  show ?case
  proof (cases "i < BAR_COUNT")
    case True
    have r: "0 \<le> random i" "random i < 1" using "1.prems"(1) by simp_all
    let ?h = "max 5 (MAX_BAR_HEIGHT * (0.1 + random i * 0.9) * sin ((real i / real BAR_COUNT) * pi))"
    have "\<forall>h \<in> set (heights @ [?h]). 5 \<le> h \<and> h \<le> MAX_BAR_HEIGHT"
      using "1.prems"(2) bar_height_bounds[OF r] by auto
    with "1.IH"[OF True refl refl refl "1.prems"(1)] True show ?thesis
      by (subst bars_loop.simps) (simp add: Let_def)
  next
    case False
    with "1.prems"(2) show ?thesis
      by (subst bars_loop.simps) simp
  qed
qed

text \<open>
  C8. Whatever values in \<open>[0, 1)\<close> \<open>Math.random()\<close> draws, \<open>generateRandomBars\<close>
  produces exactly \<open>BAR_COUNT = 50\<close> bar heights, and every one of them lies between
  5 and \<open>MAX_BAR_HEIGHT = 80\<close>.
\<close>

theorem generateRandomBars_bounds:
  assumes "\<forall>i. 0 \<le> random i \<and> random i < 1"
  shows "length (generateRandomBars random) = BAR_COUNT \<and> BAR_COUNT = 50 \<and>
         MAX_BAR_HEIGHT = 80 \<and>
         (\<forall>h \<in> set (generateRandomBars random). 5 \<le> h \<and> h \<le> MAX_BAR_HEIGHT)"
  using bars_loop_length[of 0 random "[]"] bars_loop_bounds[OF assms, of "[]" 0]
  by (simp add: generateRandomBars_def BAR_COUNT_def MAX_BAR_HEIGHT_def)

theorem generateRandomBars_bounds_witness:
  "(\<forall>i::nat. (0::real) \<le> 1 / 2 \<and> (1::real) / 2 < 1) \<and>
   length (generateRandomBars (\<lambda>_. 1 / (2::real))) = 50 \<and>
   5 \<le> generateRandomBars (\<lambda>_. 1 / 2) ! 25 \<and>
   generateRandomBars (\<lambda>_. 1 / 2) ! 25 \<le> 80"
proof -
  have h: "\<forall>i::nat. (0::real) \<le> (\<lambda>_. 1 / 2) i \<and> (\<lambda>_. 1 / 2) i < (1::real)" by simp
  note b = generateRandomBars_bounds[of "\<lambda>_. 1 / 2", OF h]
  from b have len: "length (generateRandomBars (\<lambda>_. 1 / 2)) = 50" by simp
  then have "generateRandomBars (\<lambda>_. 1 / 2) ! 25 \<in> set (generateRandomBars (\<lambda>_. 1 / 2))"
    by (intro nth_mem) simp
  with b len show ?thesis by (simp add: MAX_BAR_HEIGHT_def)
qed

subsection \<open>Slider\<close>

lemma round_to_doubleI:
  assumes "exponent \<bar>x\<bar> = ex"
    and "max (- 1022) (min 1023 ex) = e"
    and "round_half_even (\<bar>x\<bar> / pow2 (e - 52)) = n"
    and "of_int n * pow2 (e - 52) = m"
    and "m < pow2 1024"
    and "(x < 0) = s"
  shows "round_to_double x = Finite s m"
  using assms by (simp add: round_to_double_def Let_def)


lemmas rd_eval = exponent_def compute_bitlen pow2_def round_half_even_def Let_def

text \<open>The number literals \<open>0.01\<close> and \<open>1e308\<close> as doubles.\<close>

lemma literal_0_01:
  "round_to_double (1 / 100) = Finite False (5764607523034235 / 576460752303423488)"
  by (rule round_to_doubleI[where ex = "- 7" and e = "- 7" and n = "5764607523034235"])
    (simp_all add: rd_eval)




text \<open>
  With the range \<open>0..2\<close> and the default step \<open>0.01\<close> at position \<open>7.25\<close> the result
  is the double \<open>0.14\<close>.
\<close>

lemma calculateValue_at_7_25:
  "calculateValue (Finite False 0) (Finite False 2) (Finite False (5764607523034235 / 576460752303423488)) (Finite False (29 / 4)) =
        Finite False (1261007895663739 / 9007199254740992)"
proof -
  have r1: "round_to_double (29 / 400) = Finite False (5224175567749775 / 72057594037927936)"
    by (rule round_to_doubleI[where ex = "- 4" and e = "- 4" and n = "5224175567749775"])
      (simp_all add: rd_eval)
  have p: "ddiv (Finite False (29 / 4)) (Finite False 100) =
        Finite False (5224175567749775 / 72057594037927936)"
    using r1 by (simp add: val_def)
  have r2: "round_to_double 2 = Finite False 2"
    by (rule round_to_doubleI[where ex = "1" and e = "1" and n = "4503599627370496"])
      (simp_all add: rd_eval)
  have d: "dsub (Finite False 2) (Finite False 0) = Finite False 2"
    using r2 by (simp add: val_def Let_def dsub_def dneg_def)
  have r3: "round_to_double (5224175567749775 / 36028797018963968) =
        Finite False (5224175567749775 / 36028797018963968)"
    by (rule round_to_doubleI[where ex = "- 3" and e = "- 3" and n = "5224175567749775"])
      (simp_all add: rd_eval)
  have t: "dmul (Finite False (5224175567749775 / 72057594037927936)) (Finite False 2) =
        Finite False (5224175567749775 / 36028797018963968)"
    using r3 by (simp add: val_def)
  have raw: "dadd (Finite False 0) (Finite False (5224175567749775 / 36028797018963968)) =
        Finite False (5224175567749775 / 36028797018963968)"
    using r3 by (simp add: val_def Let_def)
  have f: "falsy_number (Finite False (5764607523034235 / 576460752303423488)) = False"
    by (simp add: falsy_number_def)
  have r4: "round_to_double (16717361816799280 / 1152921504606847) =
        Finite False (8162774324609023 / 562949953421312)"
    by (rule round_to_doubleI[where ex = "3" and e = "3" and n = "8162774324609023"])
      (simp_all add: rd_eval)
  have q: "ddiv (Finite False (5224175567749775 / 36028797018963968)) (Finite False (5764607523034235 / 576460752303423488)) =
        Finite False (8162774324609023 / 562949953421312)"
    using r4 by (simp add: val_def)
  have k: "Math_round (Finite False (8162774324609023 / 562949953421312)) = Finite False 14"
    by (simp add: Math_round_def val_def Let_def)
  have r5: "round_to_double (40352252661239645 / 288230376151711744) =
        Finite False (1261007895663739 / 9007199254740992)"
    by (rule round_to_doubleI[where ex = "- 3" and e = "- 3" and n = "5044031582654956"])
      (simp_all add: rd_eval)
  have st: "dmul (Finite False 14) (Finite False (5764607523034235 / 576460752303423488)) =
        Finite False (1261007895663739 / 9007199254740992)"
    using r5 by (simp add: val_def)
  have hi: "Math_max (Finite False (1261007895663739 / 9007199254740992)) (Finite False 0) =
        Finite False (1261007895663739 / 9007199254740992)"
    by (simp add: Math_max_def val_def)
  have lo: "Math_min (Finite False (1261007895663739 / 9007199254740992)) (Finite False 2) =
        Finite False (1261007895663739 / 9007199254740992)"
    by (simp add: Math_min_def val_def)
  show ?thesis
    by (simp only: calculateValue_def Let_def p d t raw f q k st hi lo if_False)
qed

text \<open>
  With the range \<open>0..100\<close> and step \<open>2\<close> at the position \<open>15 - 2^(-49)\<close> the raw value
  rounds to \<open>15\<close>, and the result is \<open>16\<close>.
\<close>

lemma calculateValue_below_15:
  "calculateValue (Finite False 0) (Finite False 100) (Finite False 2) (Finite False (8444249301319679 / 562949953421312)) =
        Finite False 16"
proof -
  have r1: "round_to_double (8444249301319679 / 56294995342131200) =
        Finite False (5404319552844595 / 36028797018963968)"
    by (rule round_to_doubleI[where ex = "- 3" and e = "- 3" and n = "5404319552844595"])
      (simp_all add: rd_eval)
  have p: "ddiv (Finite False (8444249301319679 / 562949953421312)) (Finite False 100) =
        Finite False (5404319552844595 / 36028797018963968)"
    using r1 by (simp add: val_def)
  have r2: "round_to_double 100 = Finite False 100"
    by (rule round_to_doubleI[where ex = "6" and e = "6" and n = "7036874417766400"])
      (simp_all add: rd_eval)
  have d: "dsub (Finite False 100) (Finite False 0) = Finite False 100"
    using r2 by (simp add: val_def Let_def dsub_def dneg_def)
  have r3: "round_to_double (135107988821114875 / 9007199254740992) = Finite False 15"
    by (rule round_to_doubleI[where ex = "3" and e = "3" and n = "8444249301319680"])
      (simp_all add: rd_eval)
  have t: "dmul (Finite False (5404319552844595 / 36028797018963968)) (Finite False 100) =
        Finite False 15"
    using r3 by (simp add: val_def)
  have r4: "round_to_double 15 = Finite False 15"
    by (rule round_to_doubleI[where ex = "3" and e = "3" and n = "8444249301319680"])
      (simp_all add: rd_eval)
  have raw: "dadd (Finite False 0) (Finite False 15) = Finite False 15"
    using r4 by (simp add: val_def Let_def)
  have f: "falsy_number (Finite False 2) = False"
    by (simp add: falsy_number_def)
  have r5: "round_to_double (15 / 2) = Finite False (15 / 2)"
    by (rule round_to_doubleI[where ex = "2" and e = "2" and n = "8444249301319680"])
      (simp_all add: rd_eval)
  have q: "ddiv (Finite False 15) (Finite False 2) = Finite False (15 / 2)"
    using r5 by (simp add: val_def)
  have k: "Math_round (Finite False (15 / 2)) = Finite False 8"
    by (simp add: Math_round_def val_def Let_def)
  have r6: "round_to_double 16 = Finite False 16"
    by (rule round_to_doubleI[where ex = "4" and e = "4" and n = "4503599627370496"])
      (simp_all add: rd_eval)
  have st: "dmul (Finite False 8) (Finite False 2) = Finite False 16"
    using r6 by (simp add: val_def)
  have hi: "Math_max (Finite False 16) (Finite False 0) = Finite False 16"
    by (simp add: Math_max_def val_def)
  have lo: "Math_min (Finite False 16) (Finite False 100) = Finite False 16"
    by (simp add: Math_min_def val_def)
  show ?thesis
    by (simp only: calculateValue_def Let_def p d t raw f q k st hi lo if_False)
qed

text \<open>
  With the range \<open>0..1\<close> and step \<open>0.1\<close> at position \<open>30\<close> the result is the double
  \<open>0.30000000000000004\<close>, the rounded product \<open>3 * 0.1\<close>. It lies strictly between
  three and four times the step, so it is no integer multiple of the step.
\<close>

lemma calculateValue_at_30:
  "calculateValue (Finite False 0) (Finite False 1) (Finite False (3602879701896397 / 36028797018963968)) (Finite False 30) =
        Finite False (1351079888211149 / 4503599627370496)"
proof -
  have r1: "round_to_double (3 / 10) = Finite False (5404319552844595 / 18014398509481984)"
    by (rule round_to_doubleI[where ex = "- 2" and e = "- 2" and n = "5404319552844595"])
      (simp_all add: rd_eval)
  have p: "ddiv (Finite False 30) (Finite False 100) =
        Finite False (5404319552844595 / 18014398509481984)"
    using r1 by (simp add: val_def)
  have r2: "round_to_double 1 = Finite False 1"
    by (rule round_to_doubleI[where ex = "0" and e = "0" and n = "4503599627370496"])
      (simp_all add: rd_eval)
  have d: "dsub (Finite False 1) (Finite False 0) = Finite False 1"
    using r2 by (simp add: val_def Let_def dsub_def dneg_def)
  have r3: "round_to_double (5404319552844595 / 18014398509481984) =
        Finite False (5404319552844595 / 18014398509481984)"
    by (rule round_to_doubleI[where ex = "- 2" and e = "- 2" and n = "5404319552844595"])
      (simp_all add: rd_eval)
  have t: "dmul (Finite False (5404319552844595 / 18014398509481984)) (Finite False 1) =
        Finite False (5404319552844595 / 18014398509481984)"
    using r3 by (simp add: val_def)
  have raw: "dadd (Finite False 0) (Finite False (5404319552844595 / 18014398509481984)) =
        Finite False (5404319552844595 / 18014398509481984)"
    using r3 by (simp add: val_def Let_def)
  have f: "falsy_number (Finite False (3602879701896397 / 36028797018963968)) = False"
    by (simp add: falsy_number_def)
  have r4: "round_to_double (10808639105689190 / 3602879701896397) =
        Finite False (6755399441055743 / 2251799813685248)"
    by (rule round_to_doubleI[where ex = "1" and e = "1" and n = "6755399441055743"])
      (simp_all add: rd_eval)
  have q: "ddiv (Finite False (5404319552844595 / 18014398509481984)) (Finite False (3602879701896397 / 36028797018963968)) =
        Finite False (6755399441055743 / 2251799813685248)"
    using r4 by (simp add: val_def)
  have k: "Math_round (Finite False (6755399441055743 / 2251799813685248)) = Finite False 3"
    by (simp add: Math_round_def val_def Let_def)
  have r5: "round_to_double (10808639105689191 / 36028797018963968) =
        Finite False (1351079888211149 / 4503599627370496)"
    by (rule round_to_doubleI[where ex = "- 2" and e = "- 2" and n = "5404319552844596"])
      (simp_all add: rd_eval)
  have st: "dmul (Finite False 3) (Finite False (3602879701896397 / 36028797018963968)) =
        Finite False (1351079888211149 / 4503599627370496)"
    using r5 by (simp add: val_def)
  have hi: "Math_max (Finite False (1351079888211149 / 4503599627370496)) (Finite False 0) =
        Finite False (1351079888211149 / 4503599627370496)"
    by (simp add: Math_max_def val_def)
  have lo: "Math_min (Finite False (1351079888211149 / 4503599627370496)) (Finite False 1) =
        Finite False (1351079888211149 / 4503599627370496)"
    by (simp add: Math_min_def val_def)
  show ?thesis
    by (simp only: calculateValue_def Let_def p d t raw f q k st hi lo if_False)
qed

lemma calculateValue_at_30_no_multiple:
  "real_of_int k * val (Finite False (3602879701896397 / 36028797018963968)) \<noteq>
   val (calculateValue (Finite False 0) (Finite False 1) (Finite False (3602879701896397 / 36028797018963968)) (Finite False 30))"
proof
  assume a: "real_of_int k * val (Finite False (3602879701896397 / 36028797018963968)) =
     val (calculateValue (Finite False 0) (Finite False 1) (Finite False (3602879701896397 / 36028797018963968)) (Finite False 30))"
  have "3 * val (Finite False (3602879701896397 / 36028797018963968)) < val (Finite False (1351079888211149 / 4503599627370496))"
    and "val (Finite False (1351079888211149 / 4503599627370496)) < 4 * val (Finite False (3602879701896397 / 36028797018963968))"
    by (simp_all add: val_def)
  with a have "3 < real_of_int k" and "real_of_int k < 4"
    by (simp_all add: calculateValue_at_30 val_def)
  then have "3 < k" and "k < 4" by simp_all
  then show False by linarith
qed



















end
